theory Spec2Isabelle
  imports Complex_Main
begin

section \<open>The tensor runtime as the network sees it\<close>

text \<open>
  The network of \<^verbatim>\<open>model/stbln.py\<close> is a composition of calls into the tensor
  runtime (PyTorch).  The runtime is not part of the repository.  Its behaviour is
  split in two here.

  \<^item> What a primitive does to the \<^emph>\<open>shape\<close> of a tensor, and when it refuses its
    arguments, is written out (the shape rules of \<^verbatim>\<open>view\<close>, \<^verbatim>\<open>permute\<close>,
    \<^verbatim>\<open>matmul\<close>, \<^verbatim>\<open>conv2d\<close>, \<^verbatim>\<open>batch_norm\<close>, broadcasting, \<^verbatim>\<open>mean\<close> and
    \<^verbatim>\<open>linear\<close>).
  \<^item> What a primitive does to the \<^emph>\<open>contents\<close> of a tensor is a parameter: a record
    of functions over an abstract type of contents \<open>'v\<close> and an abstract generator
    state \<open>'r\<close>.  Floating-point arithmetic is therefore not modelled; every
    primitive is taken to be a function of its arguments.

  Memory layout and device placement are not modelled: every \<^verbatim>\<open>view\<close> of the source
  is applied to a tensor that is contiguous, the input is taken to reside on a CUDA
  device, and \<^verbatim>\<open>A.cuda(x.get_device())\<close> leaves shape and contents of \<^verbatim>\<open>A\<close> as
  they are.
\<close>

datatype torch_op =
    Op_view | Op_permute | Op_select | Op_matmul | Op_conv2d
  | Op_batch_norm | Op_add | Op_mean | Op_linear

text \<open>
  Everything the source can raise.  \<open>ShapeError op\<close> is the runtime's
  \<^verbatim>\<open>RuntimeError\<close> of a failed shape check in primitive \<open>op\<close>;
  \<open>BatchSizeError\<close> is the \<^verbatim>\<open>ValueError\<close> "Expected more than 1 value per channel
  when training"; \<open>DimError\<close> is the \<^verbatim>\<open>ValueError\<close> of a normalization layer
  given a tensor of the wrong rank; \<open>NotModelled op\<close> marks argument ranks of a
  primitive that the source never produces and the model does not cover.
\<close>

datatype error =
    ZeroDivisionError
  | MathDomainError
  | UnpackError
  | KeyError
  | IndexError
  | AttributeError
  | BatchSizeError
  | DimError
  | ShapeError torch_op
  | NotModelled torch_op

definition ebind :: "error + 'a \<Rightarrow> ('a \<Rightarrow> error + 'b) \<Rightarrow> error + 'b" where
  "ebind m f = (case m of Inl e \<Rightarrow> Inl e | Inr a \<Rightarrow> f a)"

datatype 'v tensor = Tensor (shape: "nat list") (data: 'v)

definition numel :: "'v tensor \<Rightarrow> nat" where
  "numel t = prod_list (shape t)"

text \<open>\<^verbatim>\<open>t.size(i)\<close> for \<open>i \<ge> 0\<close>; out of range it is an \<^verbatim>\<open>IndexError\<close>.\<close>

definition tensor_size :: "'v tensor \<Rightarrow> nat \<Rightarrow> error + nat" where
  "tensor_size t i = (if i < length (shape t) then Inr (shape t ! i) else Inl IndexError)"

section \<open>Layers and their construction\<close>

text \<open>
  At construction the contents of a parameter are random; what is known of them is
  the initializer that produced them.  A freshly constructed module is therefore a
  module over \<open>initializer\<close>: every parameter holds the rule that drew it.
  \<open>LibraryDefault\<close> is whatever the layer's own constructor does.
\<close>

text \<open>
  A standard deviation as the source computes it: \<^verbatim>\<open>math.sqrt(r)\<close> of a
  non-negative \<open>r\<close>.  The root is kept as an expression, so that construction
  stays computable; \<open>stddev_value\<close> is the number it denotes.
\<close>

datatype stddev = Sqrt real

fun stddev_value :: "stddev \<Rightarrow> real" where
  "stddev_value (Sqrt r) = sqrt r"

datatype initializer =
    LibraryDefault
  | NumpyRand
  | KaimingNormalFanOut
  | Normal real stddev
  | Constant real

text \<open>The variance of a parameter drawn by \<^verbatim>\<open>nn.init.normal_(w, mean, std)\<close>.\<close>

fun normal_variance :: "initializer \<Rightarrow> real option" where
  "normal_variance (Normal mean std) = Some ((stddev_value std) ^ 2)"
| "normal_variance _ = None"

datatype 'v Conv2d = Conv2d
  (conv_weight: "'v tensor") (conv_bias: "'v tensor")
  (conv_stride: "nat \<times> nat") (conv_padding: "nat \<times> nat")

datatype 'v BatchNorm = BatchNorm
  (bn_weight: "'v tensor") (bn_bias: "'v tensor")
  (running_mean: "'v tensor") (running_var: "'v tensor")
  (num_batches_tracked: nat)

datatype 'v Linear = Linear (fc_weight: "'v tensor") (fc_bias: "'v tensor")

text \<open>
  \<^verbatim>\<open>nn.Conv2d(in_channels, out_channels, kernel_size, stride, padding)\<close>: the weight
  has shape \<open>[out_channels, in_channels, kernel_h, kernel_w]\<close>, and there is a bias
  (every convolution of the source keeps the default \<^verbatim>\<open>bias=True\<close>).
\<close>

definition Conv2d_new ::
  "nat \<Rightarrow> nat \<Rightarrow> nat \<times> nat \<Rightarrow> nat \<times> nat \<Rightarrow> nat \<times> nat \<Rightarrow> initializer Conv2d" where
  "Conv2d_new in_channels out_channels kernel_size stride padding =
     Conv2d (Tensor [out_channels, in_channels, fst kernel_size, snd kernel_size] LibraryDefault)
            (Tensor [out_channels] LibraryDefault) stride padding"

text \<open>\<^verbatim>\<open>nn.BatchNorm1d(num_features)\<close> and \<^verbatim>\<open>nn.BatchNorm2d(num_features)\<close>.\<close>

definition BatchNorm_new :: "nat \<Rightarrow> initializer BatchNorm" where
  "BatchNorm_new num_features =
     BatchNorm (Tensor [num_features] LibraryDefault) (Tensor [num_features] LibraryDefault)
               (Tensor [num_features] LibraryDefault) (Tensor [num_features] LibraryDefault) 0"

text \<open>\<^verbatim>\<open>nn.Linear(in_features, out_features)\<close>.\<close>

definition Linear_new :: "nat \<Rightarrow> nat \<Rightarrow> initializer Linear" where
  "Linear_new in_features out_features =
     Linear (Tensor [out_features, in_features] LibraryDefault)
            (Tensor [out_features] LibraryDefault)"

text \<open>
  The layers \<^verbatim>\<open>weights_init\<close> can be handed; its \<^verbatim>\<open>isinstance\<close> tests are the
  constructors.  \<^verbatim>\<open>nn.BatchNorm1d\<close> is not an instance of \<^verbatim>\<open>nn.BatchNorm2d\<close>.
\<close>

datatype 'v nn_module =
    M_Conv2d (un_Conv2d: "'v Conv2d")
  | M_BatchNorm2d (un_BatchNorm2d: "'v BatchNorm")
  | M_BatchNorm1d (un_BatchNorm1d: "'v BatchNorm")
  | M_Linear (un_Linear: "'v Linear")

text \<open>\<^verbatim>\<open>math.sqrt(2. / d)\<close>: division by zero and the square root of a negative raise.\<close>

definition sqrt_2_over :: "real \<Rightarrow> error + stddev" where
  "sqrt_2_over d =
     (if d = 0 then Inl ZeroDivisionError
      else if 2 / d < 0 then Inl MathDomainError
      else Inr (Sqrt (2 / d)))"

text \<open>\<^verbatim>\<open>nn.init.normal_\<close> and \<^verbatim>\<open>nn.init.constant_\<close> and \<^verbatim>\<open>nn.init.kaiming_normal_\<close>
  overwrite the contents of a parameter and keep its shape.\<close>

definition init_with :: "initializer \<Rightarrow> initializer tensor \<Rightarrow> initializer tensor" where
  "init_with i t = Tensor (shape t) i"

definition weights_init :: "initializer nn_module \<Rightarrow> real \<Rightarrow> error + initializer nn_module" where
  "weights_init md bs =
     (case md of
        M_Conv2d c \<Rightarrow>
          if bs = 1 then
            Inr (M_Conv2d (Conv2d (init_with KaimingNormalFanOut (conv_weight c))
                                  (init_with (Constant 0) (conv_bias c))
                                  (conv_stride c) (conv_padding c)))
          else
            ebind (tensor_size (conv_weight c) 0) (\<lambda>s0.
            ebind (tensor_size (conv_weight c) 1) (\<lambda>s1.
            ebind (tensor_size (conv_weight c) 2) (\<lambda>s2.
            ebind (sqrt_2_over (real (s0 * s1 * s2) * bs)) (\<lambda>std.
              Inr (M_Conv2d (Conv2d (init_with (Normal 0 std) (conv_weight c))
                                    (init_with (Constant 0) (conv_bias c))
                                    (conv_stride c) (conv_padding c)))))))
      | M_BatchNorm2d b \<Rightarrow>
          Inr (M_BatchNorm2d (BatchNorm (init_with (Constant bs) (bn_weight b))
                                        (init_with (Constant 0) (bn_bias b))
                                        (running_mean b) (running_var b)
                                        (num_batches_tracked b)))
      | M_Linear l \<Rightarrow>
          ebind (sqrt_2_over bs) (\<lambda>std.
            Inr (M_Linear (Linear (init_with (Normal 0 std) (fc_weight l)) (fc_bias l))))
      | M_BatchNorm1d b \<Rightarrow> Inr (M_BatchNorm1d b))"


section \<open>Shape rules of the runtime's primitives\<close>

text \<open>
  The contents computed by each primitive, as functions of the argument tensors.
  \<open>rt_running_mean\<close> and \<open>rt_running_var\<close> are the new running statistics of a
  normalization layer after a training-mode batch (momentum \<open>0.1\<close>);
  \<open>rt_dropout\<close> draws its mask from the generator and returns the generator's
  new state.
\<close>

record ('v, 'r) runtime =
  rt_permute :: "'v tensor \<Rightarrow> nat list \<Rightarrow> 'v"
  rt_select :: "'v tensor \<Rightarrow> nat \<Rightarrow> 'v"
  rt_matmul :: "'v tensor \<Rightarrow> 'v tensor \<Rightarrow> 'v"
  rt_conv2d :: "'v tensor \<Rightarrow> 'v tensor \<Rightarrow> 'v tensor \<Rightarrow> nat \<times> nat \<Rightarrow> nat \<times> nat \<Rightarrow> 'v"
  rt_batch_norm_train :: "'v tensor \<Rightarrow> 'v tensor \<Rightarrow> 'v tensor \<Rightarrow> 'v"
  rt_batch_norm_eval ::
    "'v tensor \<Rightarrow> 'v tensor \<Rightarrow> 'v tensor \<Rightarrow> 'v tensor \<Rightarrow> 'v tensor \<Rightarrow> 'v"
  rt_running_mean :: "'v tensor \<Rightarrow> 'v tensor \<Rightarrow> 'v"
  rt_running_var :: "'v tensor \<Rightarrow> 'v tensor \<Rightarrow> 'v"
  rt_dropout :: "'v tensor \<Rightarrow> real \<Rightarrow> 'r \<Rightarrow> 'v \<times> 'r"
  rt_add :: "'v tensor \<Rightarrow> 'v tensor \<Rightarrow> 'v"
  rt_add_scalar :: "'v tensor \<Rightarrow> int \<Rightarrow> 'v"
  rt_relu :: "'v tensor \<Rightarrow> 'v"
  rt_mean :: "'v tensor \<Rightarrow> nat \<Rightarrow> 'v"
  rt_linear :: "'v tensor \<Rightarrow> 'v tensor \<Rightarrow> 'v tensor \<Rightarrow> 'v"

text \<open>\<^verbatim>\<open>range(n)\<close>.\<close>

definition py_range :: "nat \<Rightarrow> nat list" where
  "py_range n = [0..<n]"

text \<open>\<^verbatim>\<open>a, b, c, d = x.size()\<close> and \<^verbatim>\<open>a, b, c, d, e = x.size()\<close>.\<close>

definition unpack4 :: "nat list \<Rightarrow> error + nat \<times> nat \<times> nat \<times> nat" where
  "unpack4 s = (case s of [a, b, c, d] \<Rightarrow> Inr (a, b, c, d) | _ \<Rightarrow> Inl UnpackError)"

definition unpack5 :: "nat list \<Rightarrow> error + nat \<times> nat \<times> nat \<times> nat \<times> nat" where
  "unpack5 s = (case s of [a, b, c, d, e] \<Rightarrow> Inr (a, b, c, d, e) | _ \<Rightarrow> Inl UnpackError)"

text \<open>
  \<^verbatim>\<open>x.permute(*dims)\<close>: \<open>dims\<close> is a permutation of the axes; axis \<open>i\<close> of the
  result is axis \<open>dims ! i\<close> of \<open>x\<close>.
\<close>

definition torch_permute :: "('v, 'r) runtime \<Rightarrow> 'v tensor \<Rightarrow> nat list \<Rightarrow> error + 'v tensor" where
  "torch_permute rt x dims =
     (if length dims = length (shape x) \<and> distinct dims
         \<and> list_all (\<lambda>d. d < length (shape x)) dims
      then Inr (Tensor (map (\<lambda>d. shape x ! d) dims) (rt_permute rt x dims))
      else Inl (ShapeError Op_permute))"

text \<open>
  \<^verbatim>\<open>x.view(*sizes)\<close>: the sizes must multiply to the number of elements; one size
  may be \<open>-1\<close> and is then inferred, which the runtime refuses when the other sizes
  multiply to zero or do not divide the number of elements.  The contents are
  shared with \<open>x\<close>.
\<close>

definition infer_size :: "int list \<Rightarrow> nat \<Rightarrow> error + nat list" where
  "infer_size sizes n =
     (let known = prod_list (map nat (filter (\<lambda>s. 0 \<le> s) sizes)) in
      if list_ex (\<lambda>s. s < - 1) sizes then Inl (ShapeError Op_view)
      else if length (filter (\<lambda>s. s = - 1) sizes) = 0 then
        (if known = n then Inr (map nat sizes) else Inl (ShapeError Op_view))
      else if length (filter (\<lambda>s. s = - 1) sizes) = 1 then
        (if known = 0 then Inl (ShapeError Op_view)
         else if n mod known = 0
              then Inr (map (\<lambda>s. if s = - 1 then n div known else nat s) sizes)
              else Inl (ShapeError Op_view))
      else Inl (ShapeError Op_view))"

definition torch_view :: "'v tensor \<Rightarrow> int list \<Rightarrow> error + 'v tensor" where
  "torch_view x sizes =
     ebind (infer_size sizes (numel x)) (\<lambda>s. Inr (Tensor s (data x)))"

text \<open>\<^verbatim>\<open>A[i]\<close> for \<open>i \<ge> 0\<close>: the \<open>i\<close>-th slice along the first axis.\<close>

definition torch_select :: "('v, 'r) runtime \<Rightarrow> 'v tensor \<Rightarrow> nat \<Rightarrow> error + 'v tensor" where
  "torch_select rt a i =
     (if shape a = [] then Inl IndexError
      else if i < hd (shape a) then Inr (Tensor (tl (shape a)) (rt_select rt a i))
      else Inl IndexError)"

text \<open>
  \<^verbatim>\<open>torch.matmul(a, b)\<close> for a batch of matrices \<open>a\<close> (three axes) and a matrix
  \<open>b\<close> (two axes), the only ranks the source produces: the inner sizes must agree.
\<close>

definition torch_matmul :: "('v, 'r) runtime \<Rightarrow> 'v tensor \<Rightarrow> 'v tensor \<Rightarrow> error + 'v tensor" where
  "torch_matmul rt a b =
     (if length (shape a) = 3 \<and> length (shape b) = 2 then
        (if shape a ! 2 = shape b ! 0
         then Inr (Tensor [shape a ! 0, shape a ! 1, shape b ! 1] (rt_matmul rt a b))
         else Inl (ShapeError Op_matmul))
      else Inl (NotModelled Op_matmul))"

text \<open>
  \<^verbatim>\<open>F.conv2d(x, weight, bias, stride, padding)\<close> on a batch \<open>[N, C, H, W]\<close> with a
  weight \<open>[C_out, C_in, kH, kW]\<close>: the channels must agree and the padded input must
  be at least as large as the kernel;
  \<open>H_out = (H + 2 * pad_h - kH) div stride_h + 1\<close>, and the same for \<open>W\<close>.
\<close>

definition torch_conv2d ::
  "('v, 'r) runtime \<Rightarrow> 'v tensor \<Rightarrow> 'v tensor \<Rightarrow> 'v tensor \<Rightarrow> nat \<times> nat \<Rightarrow> nat \<times> nat
     \<Rightarrow> error + 'v tensor" where
  "torch_conv2d rt x w b stride padding =
     (if length (shape x) = 4 \<and> length (shape w) = 4 then
        (let h = shape x ! 2; wd = shape x ! 3;
             kh = shape w ! 2; kw = shape w ! 3;
             sh = fst stride; sw = snd stride;
             ph = fst padding; pw = snd padding in
         if shape x ! 1 = shape w ! 1 \<and> shape b = [shape w ! 0]
            \<and> 0 < kh \<and> 0 < kw \<and> 0 < sh \<and> 0 < sw
            \<and> kh \<le> h + 2 * ph \<and> kw \<le> wd + 2 * pw
         then Inr (Tensor [shape x ! 0, shape w ! 0,
                           (h + 2 * ph - kh) div sh + 1,
                           (wd + 2 * pw - kw) div sw + 1]
                          (rt_conv2d rt x w b stride padding))
         else Inl (ShapeError Op_conv2d))
      else Inl (NotModelled Op_conv2d))"

text \<open>
  \<^verbatim>\<open>F.batch_norm\<close> in training mode first counts the values per channel,
  \<open>size[0] * size[2] * size[3] * ...\<close>, and raises when there is exactly one.
\<close>

definition size_prods :: "nat list \<Rightarrow> nat" where
  "size_prods s = hd s * prod_list (drop 2 s)"

text \<open>Broadcasting, on the shapes read from the last axis backwards.\<close>

fun broadcast_rev :: "nat list \<Rightarrow> nat list \<Rightarrow> nat list option" where
  "broadcast_rev [] ys = Some ys"
| "broadcast_rev (x # xs) [] = Some (x # xs)"
| "broadcast_rev (x # xs) (y # ys) =
     (if x = y then map_option (Cons x) (broadcast_rev xs ys)
      else if y = 1 then map_option (Cons x) (broadcast_rev xs ys)
      else if x = 1 then map_option (Cons y) (broadcast_rev xs ys)
      else None)"

definition broadcast_shapes :: "nat list \<Rightarrow> nat list \<Rightarrow> nat list option" where
  "broadcast_shapes s1 s2 = map_option rev (broadcast_rev (rev s1) (rev s2))"

text \<open>\<^verbatim>\<open>a + b\<close> on two tensors: a new tensor of the broadcast shape.\<close>

definition torch_add :: "('v, 'r) runtime \<Rightarrow> 'v tensor \<Rightarrow> 'v tensor \<Rightarrow> error + 'v tensor" where
  "torch_add rt a b =
     (case broadcast_shapes (shape a) (shape b) of
        None \<Rightarrow> Inl (ShapeError Op_add)
      | Some s \<Rightarrow> Inr (Tensor s (rt_add rt a b)))"

text \<open>\<^verbatim>\<open>a += b\<close>: as \<^verbatim>\<open>a + b\<close>, and the broadcast shape must be the shape of \<open>a\<close>.\<close>

definition torch_iadd :: "('v, 'r) runtime \<Rightarrow> 'v tensor \<Rightarrow> 'v tensor \<Rightarrow> error + 'v tensor" where
  "torch_iadd rt a b =
     (case broadcast_shapes (shape a) (shape b) of
        None \<Rightarrow> Inl (ShapeError Op_add)
      | Some s \<Rightarrow> if s = shape a then Inr (Tensor s (rt_add rt a b))
                  else Inl (ShapeError Op_add))"

text \<open>What a Python expression can yield where the source adds: a number or a tensor.\<close>

datatype 'v pyval = PyInt int | PyTensor "'v tensor"

definition py_add :: "('v, 'r) runtime \<Rightarrow> 'v tensor \<Rightarrow> 'v pyval \<Rightarrow> error + 'v tensor" where
  "py_add rt a v =
     (case v of
        PyInt k \<Rightarrow> Inr (Tensor (shape a) (rt_add_scalar rt a k))
      | PyTensor b \<Rightarrow> torch_add rt a b)"

definition torch_relu :: "('v, 'r) runtime \<Rightarrow> 'v tensor \<Rightarrow> 'v tensor" where
  "torch_relu rt x = Tensor (shape x) (rt_relu rt x)"

text \<open>\<^verbatim>\<open>x.mean(d)\<close> for \<open>d \<ge> 0\<close>: axis \<open>d\<close> is averaged away.\<close>

definition torch_mean :: "('v, 'r) runtime \<Rightarrow> 'v tensor \<Rightarrow> nat \<Rightarrow> error + 'v tensor" where
  "torch_mean rt x d =
     (if d < length (shape x)
      then Inr (Tensor (take d (shape x) @ drop (Suc d) (shape x)) (rt_mean rt x d))
      else Inl IndexError)"

text \<open>\<^verbatim>\<open>F.linear(x, weight, bias)\<close>: the last axis of \<open>x\<close> must be \<open>in_features\<close>.\<close>

definition torch_linear ::
  "('v, 'r) runtime \<Rightarrow> 'v tensor \<Rightarrow> 'v tensor \<Rightarrow> 'v tensor \<Rightarrow> error + 'v tensor" where
  "torch_linear rt x w b =
     (if length (shape w) = 2 \<and> shape x \<noteq> [] then
        (if last (shape x) = shape w ! 1 \<and> shape b = [shape w ! 0]
         then Inr (Tensor (butlast (shape x) @ [shape w ! 0]) (rt_linear rt x w b))
         else Inl (ShapeError Op_linear))
      else Inl (NotModelled Op_linear))"

text \<open>\<^verbatim>\<open>str(n)\<close> for \<open>n \<ge> 0\<close>.\<close>

definition digit :: "nat \<Rightarrow> char" where
  "digit d = char_of (48 + d)"

fun str :: "nat \<Rightarrow> string" where
  "str n = (if n < 10 then [digit n] else str (n div 10) @ [digit (n mod 10)])"

declare str.simps [simp del]


section \<open>The modules of \<^verbatim>\<open>model/stbln.py\<close>\<close>

datatype 'v BilinearMapping = BilinearMapping
  (num_subset: nat)
  (rand_graph: "'v tensor")
  (g_conv: "'v Conv2d list")
  (gcn_residual: "'v Conv2d \<times> 'v BatchNorm")
  (bm_bn: "'v BatchNorm")

datatype 'v TemporalConvolution = TemporalConvolution
  (t_conv: "'v Conv2d") (tc_bn: "'v BatchNorm")

text \<open>The residual path of a block: \<^verbatim>\<open>lambda x: 0\<close> or a temporal convolution.\<close>

datatype 'v residual_path = Lambda_zero | Residual_conv "'v TemporalConvolution"

datatype 'v ST_BLN_block = ST_BLN_block
  (gcn: "'v BilinearMapping") (tcn: "'v TemporalConvolution") (residual: "'v residual_path")

text \<open>\<open>layers\<close> is the \<^verbatim>\<open>nn.ModuleDict\<close>, in insertion order.\<close>

datatype 'v STBLN = STBLN
  (data_bn: "'v BatchNorm")
  (dropout_p: real)
  (layers: "(string \<times> 'v ST_BLN_block) list")
  (fc: "'v Linear")

subsection \<open>Construction\<close>

text \<open>
  The loop of \<^verbatim>\<open>BilinearMapping.__init__\<close> over \<^verbatim>\<open>range(self.num_subset)\<close>: append a
  \<open>1 \<times> 1\<close> convolution, then initialize \<^verbatim>\<open>self.g_conv[i]\<close> in place.
\<close>

fun g_conv_init ::
  "nat \<Rightarrow> nat \<Rightarrow> nat \<Rightarrow> nat list \<Rightarrow> initializer Conv2d list \<Rightarrow> error + initializer Conv2d list" where
  "g_conv_init in_channels out_channels n [] g = Inr g"
| "g_conv_init in_channels out_channels n (i # rest) g =
     (let g1 = g @ [Conv2d_new in_channels out_channels (1, 1) (1, 1) (0, 0)] in
      if i < length g1 then
        ebind (weights_init (M_Conv2d (g1 ! i)) (real n)) (\<lambda>m.
          g_conv_init in_channels out_channels n rest (g1[i := un_Conv2d m]))
      else Inl IndexError)"

definition BilinearMapping_init ::
  "nat \<Rightarrow> nat \<Rightarrow> nat \<Rightarrow> nat \<Rightarrow> error + initializer BilinearMapping" where
  "BilinearMapping_init in_channels out_channels graph_dim1 graph_dim2 =
     (let n = 3;
          A = Tensor [n, graph_dim1, graph_dim2] NumpyRand in
      ebind (g_conv_init in_channels out_channels n (py_range n) []) (\<lambda>g.
      ebind (if graph_dim1 \<noteq> graph_dim2 then
               ebind (weights_init
                        (M_Conv2d (Conv2d_new in_channels out_channels
                                     (graph_dim2, graph_dim1) (1, 1) (0, 0))) 1) (\<lambda>m0.
               ebind (weights_init (M_BatchNorm2d (BatchNorm_new out_channels)) 1) (\<lambda>m1.
                 Inr (un_Conv2d m0, un_BatchNorm2d m1)))
             else
               Inr (Conv2d_new in_channels out_channels (1, 1) (1, 1) (0, 0),
                    BatchNorm_new out_channels)) (\<lambda>res.
      ebind (weights_init (M_BatchNorm2d (BatchNorm_new out_channels)) (1 / 1000000)) (\<lambda>b.
        Inr (BilinearMapping n A g res (un_BatchNorm2d b))))))"

text \<open>
  \<^verbatim>\<open>int((kernel_size_ - 1) / 2)\<close>: Python's \<^verbatim>\<open>int\<close> truncates towards zero, so a
  kernel of height zero also gets padding zero.
\<close>

definition pad_of :: "nat \<Rightarrow> nat" where
  "pad_of kernel_size = (if kernel_size = 0 then 0 else (kernel_size - 1) div 2)"

definition TemporalConvolution_init ::
  "nat \<Rightarrow> nat \<Rightarrow> nat \<Rightarrow> nat \<Rightarrow> nat \<Rightarrow> error + initializer TemporalConvolution" where
  "TemporalConvolution_init in_channels out_channels kernel_size_joint kernel_size stride =
     (let pad = pad_of kernel_size in
      ebind (weights_init
               (M_Conv2d (Conv2d_new in_channels out_channels
                            (kernel_size, kernel_size_joint) (stride, 1) (pad, 0))) 1) (\<lambda>c.
      ebind (weights_init (M_BatchNorm2d (BatchNorm_new out_channels)) 1) (\<lambda>b.
        Inr (TemporalConvolution (un_Conv2d c) (un_BatchNorm2d b)))))"

definition ST_BLN_block_init ::
  "nat \<Rightarrow> nat \<Rightarrow> nat \<Rightarrow> nat \<Rightarrow> nat \<Rightarrow> bool \<Rightarrow> error + initializer ST_BLN_block" where
  "ST_BLN_block_init in_channels out_channels graph_dim1 graph_dim2 stride with_residual =
     ebind (BilinearMapping_init in_channels out_channels graph_dim1 graph_dim2) (\<lambda>g.
     ebind (TemporalConvolution_init out_channels out_channels 1 9 stride) (\<lambda>t.
     ebind (if \<not> with_residual then Inr Lambda_zero
            else if graph_dim1 \<noteq> graph_dim2 then
              ebind (TemporalConvolution_init in_channels out_channels graph_dim1 9 stride)
                (\<lambda>r. Inr (Residual_conv r))
            else
              ebind (TemporalConvolution_init in_channels out_channels 1 9 stride)
                (\<lambda>r. Inr (Residual_conv r))) (\<lambda>r.
       Inr (ST_BLN_block g t r))))"

definition STBLN_init :: "nat \<Rightarrow> nat \<Rightarrow> nat \<Rightarrow> nat \<Rightarrow> error + initializer STBLN" where
  "STBLN_init num_class num_point num_person in_channels =
     ebind (weights_init
              (M_BatchNorm1d (BatchNorm_new (num_person * in_channels * num_point))) 1) (\<lambda>d.
     ebind (ST_BLN_block_init 2 8 num_point num_point 1 False) (\<lambda>l1.
     ebind (ST_BLN_block_init 8 16 num_point num_point 1 True) (\<lambda>l2.
     ebind (ST_BLN_block_init 16 16 num_point num_point 1 True) (\<lambda>l3.
     ebind (ST_BLN_block_init 16 32 num_point num_point 1 True) (\<lambda>l4.
     ebind (ST_BLN_block_init 32 32 num_point num_point 1 True) (\<lambda>l5.
     ebind (ST_BLN_block_init 32 64 num_point num_point 1 True) (\<lambda>l6.
     ebind (ST_BLN_block_init 64 64 num_point num_point 1 True) (\<lambda>l7.
     ebind (weights_init (M_Linear (Linear_new 64 num_class)) (real num_class)) (\<lambda>f.
       Inr (STBLN (un_BatchNorm1d d) (2 / 10)
              [(''layer1'', l1), (''layer2'', l2), (''layer3'', l3), (''layer4'', l4),
               (''layer5'', l5), (''layer6'', l6), (''layer7'', l7)]
              (un_Linear f)))))))))))"


subsection \<open>Forward passes\<close>

text \<open>
  \<open>training\<close> is the mode flag that \<^verbatim>\<open>model.train()\<close> and \<^verbatim>\<open>model.eval()\<close> set on
  every submodule; a module is constructed with \<^verbatim>\<open>training = True\<close>.  A forward
  pass returns the module as it is afterwards, next to its result.
\<close>

definition Conv2d_forward :: "('v, 'r) runtime \<Rightarrow> 'v Conv2d \<Rightarrow> 'v tensor \<Rightarrow> error + 'v tensor" where
  "Conv2d_forward rt c x =
     torch_conv2d rt x (conv_weight c) (conv_bias c) (conv_stride c) (conv_padding c)"

text \<open>
  A normalization layer on an input with channel axis \<open>1\<close>.  In training mode it
  raises on a single value per channel, normalizes with the statistics of the batch,
  counts the batch and moves its running statistics; in evaluation mode it
  normalizes with the running statistics and changes nothing.
\<close>

definition batch_norm_forward ::
  "('v, 'r) runtime \<Rightarrow> bool \<Rightarrow> 'v BatchNorm \<Rightarrow> 'v tensor \<Rightarrow> error + 'v tensor \<times> 'v BatchNorm" where
  "batch_norm_forward rt training bn x =
     (if training \<and> size_prods (shape x) = 1 then Inl BatchSizeError
      else if list_all (\<lambda>p. shape p = [shape x ! 1])
                [running_mean bn, running_var bn, bn_weight bn, bn_bias bn] then
        (if training then
           Inr (Tensor (shape x) (rt_batch_norm_train rt x (bn_weight bn) (bn_bias bn)),
                BatchNorm (bn_weight bn) (bn_bias bn)
                  (Tensor (shape (running_mean bn)) (rt_running_mean rt x (running_mean bn)))
                  (Tensor (shape (running_var bn)) (rt_running_var rt x (running_var bn)))
                  (num_batches_tracked bn + 1))
         else
           Inr (Tensor (shape x)
                  (rt_batch_norm_eval rt x (running_mean bn) (running_var bn)
                     (bn_weight bn) (bn_bias bn)),
                bn))
      else Inl (ShapeError Op_batch_norm))"

definition BatchNorm1d_forward ::
  "('v, 'r) runtime \<Rightarrow> bool \<Rightarrow> 'v BatchNorm \<Rightarrow> 'v tensor \<Rightarrow> error + 'v tensor \<times> 'v BatchNorm" where
  "BatchNorm1d_forward rt training bn x =
     (if length (shape x) = 2 \<or> length (shape x) = 3
      then batch_norm_forward rt training bn x else Inl DimError)"

definition BatchNorm2d_forward ::
  "('v, 'r) runtime \<Rightarrow> bool \<Rightarrow> 'v BatchNorm \<Rightarrow> 'v tensor \<Rightarrow> error + 'v tensor \<times> 'v BatchNorm" where
  "BatchNorm2d_forward rt training bn x =
     (if length (shape x) = 4
      then batch_norm_forward rt training bn x else Inl DimError)"

text \<open>\<^verbatim>\<open>nn.Dropout(p)\<close>: the identity in evaluation mode.\<close>

definition Dropout_forward ::
  "('v, 'r) runtime \<Rightarrow> bool \<Rightarrow> real \<Rightarrow> 'r \<Rightarrow> 'v tensor \<Rightarrow> 'v tensor \<times> 'r" where
  "Dropout_forward rt training p rng x =
     (if training
      then (Tensor (shape x) (fst (rt_dropout rt x p rng)), snd (rt_dropout rt x p rng))
      else (x, rng))"

definition Linear_forward :: "('v, 'r) runtime \<Rightarrow> 'v Linear \<Rightarrow> 'v tensor \<Rightarrow> error + 'v tensor" where
  "Linear_forward rt l x = torch_linear rt x (fc_weight l) (fc_bias l)"

text \<open>
  One turn of the loop of \<^verbatim>\<open>BilinearMapping.forward\<close>, lines 68 to 70: the new
  \<^verbatim>\<open>hidden_\<close>.
\<close>

definition subset_step ::
  "('v, 'r) runtime \<Rightarrow> 'v BilinearMapping \<Rightarrow> 'v tensor \<Rightarrow> 'v tensor
     \<Rightarrow> nat \<times> nat \<times> nat \<times> nat \<Rightarrow> nat \<Rightarrow> 'v tensor option \<Rightarrow> error + 'v tensor" where
  "subset_step rt bm x A nctv i hidden =
     (case nctv of (N, C, T, V) \<Rightarrow>
        ebind (torch_view x [int N, int (C * T), int V]) (\<lambda>x_a.
        ebind (if i < length (g_conv bm) then Inr (g_conv bm ! i) else Inl IndexError) (\<lambda>conv.
        ebind (torch_select rt A i) (\<lambda>A_i.
        ebind (torch_matmul rt x_a A_i) (\<lambda>xa.
        ebind (tensor_size A 2) (\<lambda>s2.
        ebind (torch_view xa [int N, int C, int T, int s2]) (\<lambda>v.
        ebind (Conv2d_forward rt conv v) (\<lambda>z.
          case hidden of None \<Rightarrow> Inr z | Some h \<Rightarrow> torch_add rt z h))))))))"

fun subset_loop ::
  "('v, 'r) runtime \<Rightarrow> 'v BilinearMapping \<Rightarrow> 'v tensor \<Rightarrow> 'v tensor
     \<Rightarrow> nat \<times> nat \<times> nat \<times> nat \<Rightarrow> nat list \<Rightarrow> 'v tensor option
     \<Rightarrow> error + 'v tensor option" where
  "subset_loop rt bm x A nctv [] hidden = Inr hidden"
| "subset_loop rt bm x A nctv (i # rest) hidden =
     (case subset_step rt bm x A nctv i hidden of
        Inl e \<Rightarrow> Inl e
      | Inr h \<Rightarrow> subset_loop rt bm x A nctv rest (Some h))"

definition BilinearMapping_forward ::
  "('v, 'r) runtime \<Rightarrow> bool \<Rightarrow> 'v BilinearMapping \<Rightarrow> 'v tensor
     \<Rightarrow> error + 'v tensor \<times> 'v BilinearMapping" where
  "BilinearMapping_forward rt training bm x =
     ebind (unpack4 (shape x)) (\<lambda>nctv.
     ebind (subset_loop rt bm x (rand_graph bm) nctv (py_range (num_subset bm)) None) (\<lambda>hidden.
     ebind (case hidden of
              None \<Rightarrow> Inl AttributeError
            | Some h \<Rightarrow> BatchNorm2d_forward rt training (bm_bn bm) h) (\<lambda>hb.
     ebind (Conv2d_forward rt (fst (gcn_residual bm)) x) (\<lambda>r0.
     ebind (BatchNorm2d_forward rt training (snd (gcn_residual bm)) r0) (\<lambda>rb.
     ebind (torch_iadd rt (fst hb) (fst rb)) (\<lambda>h2.
       Inr (torch_relu rt h2,
            BilinearMapping (num_subset bm) (rand_graph bm) (g_conv bm)
              (fst (gcn_residual bm), snd rb) (snd hb))))))))"

definition TemporalConvolution_forward ::
  "('v, 'r) runtime \<Rightarrow> bool \<Rightarrow> 'v TemporalConvolution \<Rightarrow> 'v tensor
     \<Rightarrow> error + 'v tensor \<times> 'v TemporalConvolution" where
  "TemporalConvolution_forward rt training tc x =
     ebind (Conv2d_forward rt (t_conv tc) x) (\<lambda>y.
     ebind (BatchNorm2d_forward rt training (tc_bn tc) y) (\<lambda>yb.
       Inr (fst yb, TemporalConvolution (t_conv tc) (snd yb))))"

text \<open>\<^verbatim>\<open>self.residual(x)\<close>: the number \<open>0\<close>, or the temporal convolution of \<open>x\<close>.\<close>

definition residual_forward ::
  "('v, 'r) runtime \<Rightarrow> bool \<Rightarrow> 'v residual_path \<Rightarrow> 'v tensor
     \<Rightarrow> error + 'v pyval \<times> 'v residual_path" where
  "residual_forward rt training r x =
     (case r of
        Lambda_zero \<Rightarrow> Inr (PyInt 0, Lambda_zero)
      | Residual_conv tc \<Rightarrow>
          ebind (TemporalConvolution_forward rt training tc x) (\<lambda>yt.
            Inr (PyTensor (fst yt), Residual_conv (snd yt))))"

definition ST_BLN_block_forward ::
  "('v, 'r) runtime \<Rightarrow> bool \<Rightarrow> 'v ST_BLN_block \<Rightarrow> 'v tensor
     \<Rightarrow> error + 'v tensor \<times> 'v ST_BLN_block" where
  "ST_BLN_block_forward rt training blk x =
     ebind (BilinearMapping_forward rt training (gcn blk) x) (\<lambda>g.
     ebind (TemporalConvolution_forward rt training (tcn blk) (fst g)) (\<lambda>t.
     ebind (residual_forward rt training (residual blk) x) (\<lambda>r.
     ebind (py_add rt (fst t) (fst r)) (\<lambda>s.
       Inr (torch_relu rt s, ST_BLN_block (snd g) (snd t) (snd r))))))"

text \<open>\<^verbatim>\<open>d[key]\<close> and the replacement of the module stored under a key.\<close>

definition dict_get :: "(string \<times> 'a) list \<Rightarrow> string \<Rightarrow> error + 'a" where
  "dict_get d key = (case map_of d key of None \<Rightarrow> Inl KeyError | Some v \<Rightarrow> Inr v)"

fun dict_set :: "(string \<times> 'a) list \<Rightarrow> string \<Rightarrow> 'a \<Rightarrow> (string \<times> 'a) list" where
  "dict_set [] key v = [(key, v)]"
| "dict_set (kv # d) key v = (if fst kv = key then (key, v) # d else kv # dict_set d key v)"

text \<open>The loop of \<^verbatim>\<open>STBLN.forward\<close>, lines 138 to 140.\<close>

fun layers_loop ::
  "('v, 'r) runtime \<Rightarrow> bool \<Rightarrow> real \<Rightarrow> nat list
     \<Rightarrow> (string \<times> 'v ST_BLN_block) list \<Rightarrow> 'r \<Rightarrow> 'v tensor
     \<Rightarrow> error + 'v tensor \<times> (string \<times> 'v ST_BLN_block) list \<times> 'r" where
  "layers_loop rt training p [] ls rng x = Inr (x, ls, rng)"
| "layers_loop rt training p (i # rest) ls rng x =
     (case ebind (dict_get ls (''layer'' @ str (i + 1)))
             (\<lambda>blk. ST_BLN_block_forward rt training blk
                (fst (Dropout_forward rt training p rng x))) of
        Inl e \<Rightarrow> Inl e
      | Inr yb \<Rightarrow>
          layers_loop rt training p rest
            (dict_set ls (''layer'' @ str (i + 1)) (snd yb))
            (snd (Dropout_forward rt training p rng x)) (fst yb))"

definition STBLN_forward ::
  "('v, 'r) runtime \<Rightarrow> bool \<Rightarrow> 'v STBLN \<Rightarrow> 'r \<Rightarrow> 'v tensor
     \<Rightarrow> error + 'v tensor \<times> 'v STBLN \<times> 'r" where
  "STBLN_forward rt training m rng x =
     ebind (unpack5 (shape x)) (\<lambda>nctvm.
       case nctvm of (N, C, T, V, M) \<Rightarrow>
     ebind (torch_permute rt x [0, 4, 3, 1, 2]) (\<lambda>x1.
     ebind (torch_view x1 [int N, int (M * V * C), int T]) (\<lambda>x2.
     ebind (BatchNorm1d_forward rt training (data_bn m) x2) (\<lambda>xb.
     ebind (torch_view (fst xb) [int N, int M, int V, int C, int T]) (\<lambda>x4.
     ebind (torch_permute rt x4 [0, 1, 3, 4, 2]) (\<lambda>x5.
     ebind (torch_view x5 [int (N * M), int C, int T, int V]) (\<lambda>x6.
     ebind (layers_loop rt training (dropout_p m) (py_range (length (layers m)))
              (layers m) rng x6) (\<lambda>xlr.
     ebind (tensor_size (fst xlr) 1) (\<lambda>c_new.
     ebind (torch_view (fst xlr) [int N, int M, int c_new, - 1]) (\<lambda>x8.
     ebind (torch_mean rt x8 3) (\<lambda>x9.
     ebind (torch_mean rt x9 1) (\<lambda>x10.
     ebind (Linear_forward rt (fc m) x10) (\<lambda>y.
       Inr (y, STBLN (snd xb) (dropout_p m) (fst (snd xlr)) (fc m),
            snd (snd xlr)))))))))))))))"


section \<open>Architecture, parameters, and a runtime to compute with\<close>

text \<open>
  The architecture of a module: the shapes of its parameters and buffers and its
  hyper-parameters, without the contents.  A module \<open>m\<close> over any contents has the
  architecture of a constructed module \<open>m0\<close> when the two agree here; its contents
  and its batch counters are then arbitrary.
\<close>

definition Conv2d_arch :: "'v Conv2d \<Rightarrow> nat list \<times> nat list \<times> (nat \<times> nat) \<times> (nat \<times> nat)" where
  "Conv2d_arch c =
     (shape (conv_weight c), shape (conv_bias c), conv_stride c, conv_padding c)"

definition BatchNorm_arch :: "'v BatchNorm \<Rightarrow> nat list list" where
  "BatchNorm_arch b =
     [shape (bn_weight b), shape (bn_bias b), shape (running_mean b), shape (running_var b)]"

definition Linear_arch :: "'v Linear \<Rightarrow> nat list \<times> nat list" where
  "Linear_arch l = (shape (fc_weight l), shape (fc_bias l))"

definition BilinearMapping_arch where
  "BilinearMapping_arch bm =
     (num_subset bm, shape (rand_graph bm), map Conv2d_arch (g_conv bm),
      Conv2d_arch (fst (gcn_residual bm)), BatchNorm_arch (snd (gcn_residual bm)),
      BatchNorm_arch (bm_bn bm))"

definition TemporalConvolution_arch where
  "TemporalConvolution_arch tc = (Conv2d_arch (t_conv tc), BatchNorm_arch (tc_bn tc))"

definition residual_arch where
  "residual_arch r =
     (case r of Lambda_zero \<Rightarrow> None
      | Residual_conv tc \<Rightarrow> Some (TemporalConvolution_arch tc))"

definition ST_BLN_block_arch where
  "ST_BLN_block_arch blk =
     (BilinearMapping_arch (gcn blk), TemporalConvolution_arch (tcn blk),
      residual_arch (residual blk))"

definition STBLN_arch where
  "STBLN_arch m =
     (BatchNorm_arch (data_bn m), dropout_p m,
      map (\<lambda>kv. (fst kv, ST_BLN_block_arch (snd kv))) (layers m),
      Linear_arch (fc m))"

text \<open>
  The learned parameters of a module, in the order of \<^verbatim>\<open>nn.Module.parameters()\<close>.
  The running statistics and the batch counter of a normalization layer are
  buffers, not parameters.
\<close>

definition Conv2d_parameters :: "'v Conv2d \<Rightarrow> 'v tensor list" where
  "Conv2d_parameters c = [conv_weight c, conv_bias c]"

definition BatchNorm_parameters :: "'v BatchNorm \<Rightarrow> 'v tensor list" where
  "BatchNorm_parameters b = [bn_weight b, bn_bias b]"

definition Linear_parameters :: "'v Linear \<Rightarrow> 'v tensor list" where
  "Linear_parameters l = [fc_weight l, fc_bias l]"

definition BilinearMapping_parameters :: "'v BilinearMapping \<Rightarrow> 'v tensor list" where
  "BilinearMapping_parameters bm =
     rand_graph bm # concat (map Conv2d_parameters (g_conv bm))
       @ Conv2d_parameters (fst (gcn_residual bm))
       @ BatchNorm_parameters (snd (gcn_residual bm))
       @ BatchNorm_parameters (bm_bn bm)"

definition TemporalConvolution_parameters :: "'v TemporalConvolution \<Rightarrow> 'v tensor list" where
  "TemporalConvolution_parameters tc =
     Conv2d_parameters (t_conv tc) @ BatchNorm_parameters (tc_bn tc)"

definition residual_parameters :: "'v residual_path \<Rightarrow> 'v tensor list" where
  "residual_parameters r =
     (case r of Lambda_zero \<Rightarrow> []
      | Residual_conv tc \<Rightarrow> TemporalConvolution_parameters tc)"

definition ST_BLN_block_parameters :: "'v ST_BLN_block \<Rightarrow> 'v tensor list" where
  "ST_BLN_block_parameters blk =
     BilinearMapping_parameters (gcn blk) @ TemporalConvolution_parameters (tcn blk)
       @ residual_parameters (residual blk)"

definition STBLN_parameters :: "'v STBLN \<Rightarrow> 'v tensor list" where
  "STBLN_parameters m =
     BatchNorm_parameters (data_bn m)
       @ concat (map (\<lambda>kv. ST_BLN_block_parameters (snd kv)) (layers m))
       @ Linear_parameters (fc m)"

text \<open>
  A small runtime to run the model on: the contents of a tensor are one integer,
  the generator is a counter, every primitive is integer arithmetic on its
  arguments, and dropout mixes the generator's state into its result.
\<close>

definition scalar_rt :: "(int, nat) runtime" where
  "scalar_rt =
     \<lparr> rt_permute = (\<lambda>x dims. data x),
       rt_select = (\<lambda>a i. data a + int i),
       rt_matmul = (\<lambda>a b. data a * data b),
       rt_conv2d = (\<lambda>x w b stride padding. data x * data w + data b),
       rt_batch_norm_train = (\<lambda>x w b. data x * data w + data b),
       rt_batch_norm_eval = (\<lambda>x rm rv w b. (data x - data rm) * data w + data b),
       rt_running_mean = (\<lambda>x rm. data rm + data x),
       rt_running_var = (\<lambda>x rv. data rv + data x * data x),
       rt_dropout = (\<lambda>x p rng. (data x + int rng, Suc rng)),
       rt_add = (\<lambda>a b. data a + data b),
       rt_add_scalar = (\<lambda>a k. data a + k),
       rt_relu = (\<lambda>x. max 0 (data x)),
       rt_mean = (\<lambda>x d. data x),
       rt_linear = (\<lambda>x w b. data x * data w + data b) \<rparr>"

text \<open>Contents for the parameters of a constructed module, one integer each.\<close>

fun draw :: "initializer \<Rightarrow> int" where
  "draw (Constant c) = \<lfloor>c\<rfloor>"
| "draw LibraryDefault = 1"
| "draw NumpyRand = 2"
| "draw KaimingNormalFanOut = 3"
| "draw (Normal mean std) = 4"

text \<open>Construct a module, give its parameters contents, and call it once.\<close>

definition TemporalConvolution_run where
  "TemporalConvolution_run rt training \<theta> in_channels out_channels kernel_size_joint
      kernel_size stride x =
     ebind (TemporalConvolution_init in_channels out_channels kernel_size_joint
              kernel_size stride) (\<lambda>tc.
       TemporalConvolution_forward rt training (map_TemporalConvolution \<theta> tc) x)"

definition BilinearMapping_run where
  "BilinearMapping_run rt training \<theta> in_channels out_channels graph_dim1 graph_dim2 x =
     ebind (BilinearMapping_init in_channels out_channels graph_dim1 graph_dim2) (\<lambda>bm.
       BilinearMapping_forward rt training (map_BilinearMapping \<theta> bm) x)"

definition STBLN_run where
  "STBLN_run rt training \<theta> num_class num_point num_person in_channels rng x =
     ebind (STBLN_init num_class num_point num_person in_channels) (\<lambda>m.
       STBLN_forward rt training (map_STBLN \<theta> m) rng x)"

text \<open>
  The architectures that the constructors produce, for the statements below: a
  convolution with a \<open>kh \<times> kw\<close> kernel, stride \<open>(st, 1)\<close> and padding \<open>(ph, 0)\<close>;
  a normalization layer over \<open>c\<close> channels; a \<^verbatim>\<open>BilinearMapping\<close> with both graph
  dimensions \<open>V\<close>; a block of the network; the seven blocks; the network.
\<close>

abbreviation conv_arch :: "nat \<Rightarrow> nat \<Rightarrow> nat \<Rightarrow> nat \<Rightarrow> nat \<Rightarrow> nat
    \<Rightarrow> nat list \<times> nat list \<times> (nat \<times> nat) \<times> (nat \<times> nat)" where
  "conv_arch co ci kh kw st ph \<equiv> ([co, ci, kh, kw], [co], (st, 1), (ph, 0))"

abbreviation bn_arch :: "nat \<Rightarrow> nat list list" where
  "bn_arch c \<equiv> [[c], [c], [c], [c]]"

abbreviation bm_arch where
  "bm_arch co ci V \<equiv>
     (3::nat, [3, V, V],
      [conv_arch co ci 1 1 1 0, conv_arch co ci 1 1 1 0, conv_arch co ci 1 1 1 0],
      conv_arch co ci 1 1 1 0, bn_arch co, bn_arch co)"

abbreviation block_arch where
  "block_arch co ci V with_residual \<equiv>
     (bm_arch co ci V, (conv_arch co co 9 1 1 4, bn_arch co),
      (if with_residual then Some (conv_arch co ci 9 1 1 4, bn_arch co) else None))"

abbreviation layers_arch where
  "layers_arch V \<equiv>
     [(''layer1'', block_arch 8 2 V False), (''layer2'', block_arch 16 8 V True),
      (''layer3'', block_arch 16 16 V True), (''layer4'', block_arch 32 16 V True),
      (''layer5'', block_arch 32 32 V True), (''layer6'', block_arch 64 32 V True),
      (''layer7'', block_arch 64 64 V True)]"

abbreviation stbln_arch where
  "stbln_arch num_class num_point num_person in_channels \<equiv>
     (bn_arch (num_person * in_channels * num_point), 2 / 10 :: real,
      layers_arch num_point, ([num_class, 64], [num_class]))"

section \<open>The weight initializer\<close>

lemma ebind_Inr [simp]: "ebind (Inr a) f = f a"
  by (simp add: ebind_def)

lemma ebind_Inl [simp]: "ebind (Inl e) f = Inl e"
  by (simp add: ebind_def)

lemma sqrt_2_over_pos: "0 < d \<Longrightarrow> sqrt_2_over d = Inr (Sqrt (2 / d))"
  by (simp add: sqrt_2_over_def)

text \<open>
  Claim C3, as amended.  Handed a convolution whose weight has shape
  \<open>[out_channels, in_channels, kernel_h, kernel_w]\<close> and a positive \<open>bs \<noteq> 1\<close>, the
  initializer draws the weight from a normal distribution of mean \<open>0\<close> and variance
  \<open>2 / (out_channels * in_channels * kernel_h * bs)\<close>, the product of the first
  three sizes of the weight, and sets the bias to zero.  The kernel width does not
  enter; the number of input channels does.
\<close>

theorem weights_init_conv_variance:
  assumes "shape (conv_weight c) = [out_channels, in_channels, kernel_h, kernel_w]"
    and "bs \<noteq> 1" and "0 < bs"
    and "0 < out_channels" and "0 < in_channels" and "0 < kernel_h"
  shows "weights_init (M_Conv2d c) bs =
           Inr (M_Conv2d (Conv2d
             (Tensor (shape (conv_weight c))
                (Normal 0 (Sqrt (2 / (real (out_channels * in_channels * kernel_h) * bs)))))
             (Tensor (shape (conv_bias c)) (Constant 0))
             (conv_stride c) (conv_padding c)))
         \<and> normal_variance
               (Normal 0 (Sqrt (2 / (real (out_channels * in_channels * kernel_h) * bs))))
             = Some (2 / (real (out_channels * in_channels * kernel_h) * bs))"
proof -
  let ?d = "real (out_channels * in_channels * kernel_h) * bs"
  have pos: "0 < ?d" using assms by simp
  have s: "sqrt_2_over ?d = Inr (Sqrt (2 / ?d))"
    by (rule sqrt_2_over_pos [OF pos])
  have v: "(sqrt (2 / ?d))\<^sup>2 = 2 / ?d" using pos by simp
  have "weights_init (M_Conv2d c) bs =
           Inr (M_Conv2d (Conv2d
             (Tensor (shape (conv_weight c)) (Normal 0 (Sqrt (2 / ?d))))
             (Tensor (shape (conv_bias c)) (Constant 0))
             (conv_stride c) (conv_padding c)))"
    using assms(1,2) s by (simp add: weights_init_def tensor_size_def init_with_def)
  moreover have "normal_variance (Normal 0 (Sqrt (2 / ?d))) = Some (2 / ?d)"
    using v by simp
  ultimately show ?thesis by blast
qed

text \<open>
  The first \<^verbatim>\<open>g_conv\<close> of the first block: two input channels, eight output
  channels, a \<open>1 \<times> 1\<close> kernel, \<open>bs = 3\<close>.
\<close>

theorem weights_init_conv_variance_witness:
  "weights_init (M_Conv2d (Conv2d_new 2 8 (1, 1) (1, 1) (0, 0))) 3 =
     Inr (M_Conv2d (Conv2d (Tensor [8, 2, 1, 1] (Normal 0 (Sqrt (1 / 24))))
                           (Tensor [8] (Constant 0)) (1, 1) (0, 0)))
   \<and> normal_variance (Normal 0 (Sqrt (1 / 24))) = Some (1 / 24)"
  using weights_init_conv_variance [of "Conv2d_new 2 8 (1, 1) (1, 1) (0, 0)" 8 2 1 1 3]
  by (simp add: Conv2d_new_def)

text \<open>
  Claim C3 as stated fails there: with \<open>out_channels = 8\<close>, a \<open>1 \<times> 1\<close> kernel and
  \<open>bs = 3\<close> it asks for the variance \<open>2 / (8 * 1 * 1 * 3)\<close>; the weight is drawn
  with variance \<open>1 / 24\<close>.
\<close>

theorem weights_init_conv_variance_counterexample:
  "weights_init (M_Conv2d (Conv2d_new 2 8 (1, 1) (1, 1) (0, 0))) 3 =
     Inr (M_Conv2d (Conv2d (Tensor [8, 2, 1, 1] (Normal 0 (Sqrt (1 / 24))))
                           (Tensor [8] (Constant 0)) (1, 1) (0, 0)))
   \<and> normal_variance (Normal 0 (Sqrt (1 / 24))) \<noteq> Some (2 / (8 * 1 * 1 * 3))"
  by (simp add: weights_init_def tensor_size_def init_with_def Conv2d_new_def
      sqrt_2_over_def)

section \<open>Shapes through the forward pass\<close>

lemma infer_size_nat: "infer_size (map int ns) (prod_list ns) = Inr ns"
proof -
  have 1: "filter (\<lambda>s. 0 \<le> s) (map int ns) = map int ns"
    by (induction ns) simp_all
  have 2: "filter (\<lambda>s. s = - 1) (map int ns) = []"
    by (induction ns) simp_all
  have 3: "\<not> list_ex (\<lambda>s. s < - 1) (map int ns)"
    by (induction ns) simp_all
  have 4: "map (nat \<circ> int) ns = ns"
    by (induction ns) simp_all
  show ?thesis
    unfolding infer_size_def Let_def using 3 by (simp add: 1 2 4)
qed

lemma torch_view_nat:
  "prod_list ns = prod_list (shape x) \<Longrightarrow> torch_view x (map int ns) = Inr (Tensor ns (data x))"
  using infer_size_nat [of ns] by (simp add: torch_view_def numel_def)

lemma infer_size_last:
  assumes "prod_list ns \<noteq> 0" and "n mod prod_list ns = 0"
  shows "infer_size (map int ns @ [- 1]) n = Inr (ns @ [n div prod_list ns])"
proof -
  have 1: "filter (\<lambda>s. 0 \<le> s) (map int ns @ [- 1]) = map int ns"
    by (induction ns) simp_all
  have 2: "filter (\<lambda>s. s = - 1) (map int ns @ [- 1]) = [- 1]"
    by (induction ns) simp_all
  have 3: "\<not> list_ex (\<lambda>s. s < - 1) (map int ns @ [- 1])"
    by (induction ns) simp_all
  have 4: "map (nat \<circ> int) ns = ns"
    by (induction ns) simp_all
  have 5: "map ((\<lambda>s. if s = - 1 then k else nat s) \<circ> int) ns = ns" for k
    by (induction ns) simp_all
  show ?thesis
    unfolding infer_size_def Let_def using 3 assms by (simp add: 1 2 4 5)
qed

lemma torch_view_last:
  assumes "prod_list ns \<noteq> 0" and "prod_list (shape x) mod prod_list ns = 0"
  shows "torch_view x (map int ns @ [- 1])
           = Inr (Tensor (ns @ [prod_list (shape x) div prod_list ns]) (data x))"
  using infer_size_last [OF assms] by (simp add: torch_view_def numel_def)

lemma unpack4_eq [simp]: "unpack4 [a, b, c, d] = Inr (a, b, c, d)"
  by (simp add: unpack4_def)

lemma unpack5_eq [simp]: "unpack5 [a, b, c, d, e] = Inr (a, b, c, d, e)"
  by (simp add: unpack5_def)

lemma Conv2d_forward_shape:
  assumes "Conv2d_arch c = ([co, ci, kh, kw], [co], (sh, sw), (ph, pw))"
    and "shape x = [n, ci, h, w]"
    and "0 < kh" "0 < kw" "0 < sh" "0 < sw" "kh \<le> h + 2 * ph" "kw \<le> w + 2 * pw"
  shows "Conv2d_forward rt c x =
           Inr (Tensor [n, co, (h + 2 * ph - kh) div sh + 1, (w + 2 * pw - kw) div sw + 1]
                  (rt_conv2d rt x (conv_weight c) (conv_bias c) (conv_stride c) (conv_padding c)))"
  using assms by (simp add: Conv2d_forward_def torch_conv2d_def Conv2d_arch_def Let_def)

lemma Conv2d_forward_1x1:
  assumes "Conv2d_arch c = ([co, ci, 1, 1], [co], (1, 1), (0, 0))"
    and "shape x = [n, ci, h, w]" and "0 < h" "0 < w"
  shows "Conv2d_forward rt c x =
           Inr (Tensor [n, co, h, w]
                  (rt_conv2d rt x (conv_weight c) (conv_bias c) (conv_stride c) (conv_padding c)))"
  using Conv2d_forward_shape [OF assms(1,2), of rt] assms(3,4) by simp

lemma batch_norm_forward_shape:
  assumes "BatchNorm_arch b = [[c], [c], [c], [c]]"
    and "shape x ! 1 = c"
    and "training \<longrightarrow> size_prods (shape x) \<noteq> 1"
  shows "\<exists>v b'. batch_norm_forward rt training b x = Inr (Tensor (shape x) v, b')
           \<and> BatchNorm_arch b' = BatchNorm_arch b
           \<and> BatchNorm_parameters b' = BatchNorm_parameters b
           \<and> (\<not> training \<longrightarrow> b' = b)"
  using assms
  by (cases training) (simp_all add: batch_norm_forward_def BatchNorm_arch_def BatchNorm_parameters_def)


lemma torch_view3:
  "a * b * c = prod_list (shape x) \<Longrightarrow>
   torch_view x [int a, int b, int c] = Inr (Tensor [a, b, c] (data x))"
  using torch_view_nat [of "[a, b, c]" x] by (simp add: mult.assoc)

lemma torch_view4:
  "a * b * c * d = prod_list (shape x) \<Longrightarrow>
   torch_view x [int a, int b, int c, int d] = Inr (Tensor [a, b, c, d] (data x))"
  using torch_view_nat [of "[a, b, c, d]" x] by (simp add: mult.assoc)

lemma torch_view5:
  "a * b * c * d * e = prod_list (shape x) \<Longrightarrow>
   torch_view x [int a, int b, int c, int d, int e] = Inr (Tensor [a, b, c, d, e] (data x))"
  using torch_view_nat [of "[a, b, c, d, e]" x] by (simp add: mult.assoc)

lemma broadcast_rev_same: "broadcast_rev xs xs = Some xs"
  by (induction xs) simp_all

lemma broadcast_shapes_same: "broadcast_shapes s s = Some s"
  by (simp add: broadcast_shapes_def broadcast_rev_same)

lemma torch_add_same:
  "shape a = shape b \<Longrightarrow> torch_add rt a b = Inr (Tensor (shape a) (rt_add rt a b))"
  by (simp add: torch_add_def broadcast_shapes_same)

lemma torch_iadd_same:
  "shape a = shape b \<Longrightarrow> torch_iadd rt a b = Inr (Tensor (shape a) (rt_add rt a b))"
  by (simp add: torch_iadd_def broadcast_shapes_same)

lemma subset_step_shape:
  assumes x: "shape x = [N, C, T, V]"
    and A: "shape A = [K, V, W]"
    and i: "i < K" "i < length (g_conv bm)"
    and c: "Conv2d_arch (g_conv bm ! i) = ([co, C, 1, 1], [co], (1, 1), (0, 0))"
    and pos: "0 < T" "0 < W"
    and h: "case hidden of None \<Rightarrow> True | Some h \<Rightarrow> shape h = [N, co, T, W]"
  shows "\<exists>v. subset_step rt bm x A (N, C, T, V) i hidden = Inr (Tensor [N, co, T, W] v)"
proof -
  have v1: "torch_view x [int N, int (C * T), int V] = Inr (Tensor [N, C * T, V] (data x))"
    by (rule torch_view3) (simp add: x)
  have s: "torch_select rt A i = Inr (Tensor [V, W] (rt_select rt A i))"
    using A i by (simp add: torch_select_def)
  have m: "torch_matmul rt (Tensor [N, C * T, V] (data x)) (Tensor [V, W] (rt_select rt A i))
             = Inr (Tensor [N, C * T, W]
                 (rt_matmul rt (Tensor [N, C * T, V] (data x)) (Tensor [V, W] (rt_select rt A i))))"
    by (simp add: torch_matmul_def)
  have sz: "tensor_size A 2 = Inr W"
    using A by (simp add: tensor_size_def)
  have v2: "torch_view (Tensor [N, C * T, W] d) [int N, int C, int T, int W]
              = Inr (Tensor [N, C, T, W] d)" for d
    using torch_view4 [of N C T W "Tensor [N, C * T, W] d"] by simp
  have cv: "Conv2d_forward rt (g_conv bm ! i) (Tensor [N, C, T, W] d)
              = Inr (Tensor [N, co, T, W]
                  (rt_conv2d rt (Tensor [N, C, T, W] d) (conv_weight (g_conv bm ! i))
                     (conv_bias (g_conv bm ! i)) (conv_stride (g_conv bm ! i))
                     (conv_padding (g_conv bm ! i))))" for d
    by (rule Conv2d_forward_1x1 [OF c]) (simp_all add: pos)
  show ?thesis
    using h i(2)
    by (cases hidden)
      (simp_all add: subset_step_def v1 s m sz v2 cv torch_add_same del: of_nat_mult)
qed


lemma subset_loop_shape:
  assumes x: "shape x = [N, C, T, V]"
    and A: "shape A = [K, V, W]"
    and i: "\<forall>i\<in>set idx. i < K \<and> i < length (g_conv bm)
              \<and> Conv2d_arch (g_conv bm ! i) = ([co, C, 1, 1], [co], (1, 1), (0, 0))"
    and pos: "0 < T" "0 < W"
    and h: "case hidden of None \<Rightarrow> idx \<noteq> [] | Some h \<Rightarrow> shape h = [N, co, T, W]"
  shows "\<exists>v. subset_loop rt bm x A (N, C, T, V) idx hidden = Inr (Some (Tensor [N, co, T, W] v))"
  using i h
proof (induction idx arbitrary: hidden)
  case Nil
  then show ?case
  proof (cases hidden)
    case None
    with Nil show ?thesis by simp
  next
    case (Some a)
    with Nil have "a = Tensor [N, co, T, W] (data a)" by (cases a) simp
    with Some show ?thesis by auto
  qed
next
  case (Cons j idx)
  have hj: "case hidden of None \<Rightarrow> True | Some h \<Rightarrow> shape h = [N, co, T, W]"
    using Cons.prems(2) by (cases hidden) simp_all
  obtain v where v: "subset_step rt bm x A (N, C, T, V) j hidden = Inr (Tensor [N, co, T, W] v)"
    using subset_step_shape [where i = j and bm = bm and co = co and rt = rt, OF x A _ _ _ pos hj]
      Cons.prems(1) by auto
  have "\<exists>w. subset_loop rt bm x A (N, C, T, V) idx (Some (Tensor [N, co, T, W] v))
              = Inr (Some (Tensor [N, co, T, W] w))"
    by (rule Cons.IH) (use Cons.prems(1) in simp_all)
  then show ?case by (simp add: v)
qed

lemma BatchNorm2d_forward_shape:
  assumes "BatchNorm_arch b = [[c], [c], [c], [c]]"
    and "shape x = [n, c, h, w]"
    and "training \<longrightarrow> n * h * w \<noteq> 1"
  shows "\<exists>v b'. BatchNorm2d_forward rt training b x = Inr (Tensor [n, c, h, w] v, b')"
proof -
  have "training \<longrightarrow> size_prods (shape x) \<noteq> 1"
    using assms(2,3) by (simp add: size_prods_def mult.assoc)
  then show ?thesis
    using batch_norm_forward_shape [OF assms(1), of x training rt] assms(2)
    by (auto simp: BatchNorm2d_forward_def)
qed

lemma py_range_3: "py_range 3 = [0, Suc 0, 2]"
  by (simp add: py_range_def upt_rec)

lemma BilinearMapping_forward_shape:
  assumes arch: "BilinearMapping_arch bm =
      (3, [3, V, V],
       [([co, C, 1, 1], [co], (1, 1), (0, 0)), ([co, C, 1, 1], [co], (1, 1), (0, 0)),
        ([co, C, 1, 1], [co], (1, 1), (0, 0))],
       ([co, C, 1, 1], [co], (1, 1), (0, 0)),
       [[co], [co], [co], [co]], [[co], [co], [co], [co]])"
    and x: "shape x = [N, C, T, V]"
    and pos: "0 < T" "0 < V"
    and tr: "training \<longrightarrow> N * T * V \<noteq> 1"
  shows "\<exists>v bm'. BilinearMapping_forward rt training bm x = Inr (Tensor [N, co, T, V] v, bm')"
proof -
  have ns: "num_subset bm = 3" and A: "shape (rand_graph bm) = [3, V, V]"
    and g: "map Conv2d_arch (g_conv bm) =
       [([co, C, 1, 1], [co], (1, 1), (0, 0)), ([co, C, 1, 1], [co], (1, 1), (0, 0)),
        ([co, C, 1, 1], [co], (1, 1), (0, 0))]"
    and rc: "Conv2d_arch (fst (gcn_residual bm)) = ([co, C, 1, 1], [co], (1, 1), (0, 0))"
    and rb: "BatchNorm_arch (snd (gcn_residual bm)) = [[co], [co], [co], [co]]"
    and bb: "BatchNorm_arch (bm_bn bm) = [[co], [co], [co], [co]]"
    using arch by (simp_all add: BilinearMapping_arch_def)
  have len: "length (g_conv bm) = 3"
    using arg_cong [OF g, of length] by simp
  have gi: "\<forall>i\<in>set [0, Suc 0, 2]. i < 3 \<and> i < length (g_conv bm)
              \<and> Conv2d_arch (g_conv bm ! i) = ([co, C, 1, 1], [co], (1, 1), (0, 0))"
    using arg_cong [OF g, of "\<lambda>l. l ! 0"] arg_cong [OF g, of "\<lambda>l. l ! 1"]
      arg_cong [OF g, of "\<lambda>l. l ! 2"] len by simp
  obtain h where h: "subset_loop rt bm x (rand_graph bm) (N, C, T, V) [0, Suc 0, 2] None
                       = Inr (Some (Tensor [N, co, T, V] h))"
    using subset_loop_shape [OF x A gi pos, of None rt] by auto
  obtain hv b1 where hb: "BatchNorm2d_forward rt training (bm_bn bm) (Tensor [N, co, T, V] h)
                            = Inr (Tensor [N, co, T, V] hv, b1)"
    using BatchNorm2d_forward_shape [OF bb, of "Tensor [N, co, T, V] h" N T V training rt] tr
    by auto
  have r0: "Conv2d_forward rt (fst (gcn_residual bm)) x =
              Inr (Tensor [N, co, T, V]
                (rt_conv2d rt x (conv_weight (fst (gcn_residual bm)))
                   (conv_bias (fst (gcn_residual bm))) (conv_stride (fst (gcn_residual bm)))
                   (conv_padding (fst (gcn_residual bm)))))"
    by (rule Conv2d_forward_1x1 [OF rc x pos])
  obtain rv b2 where r1: "BatchNorm2d_forward rt training (snd (gcn_residual bm))
        (Tensor [N, co, T, V]
                (rt_conv2d rt x (conv_weight (fst (gcn_residual bm)))
                   (conv_bias (fst (gcn_residual bm))) (conv_stride (fst (gcn_residual bm)))
                   (conv_padding (fst (gcn_residual bm)))))
         = Inr (Tensor [N, co, T, V] rv, b2)"
    using BatchNorm2d_forward_shape [OF rb, of _ N T V training rt] tr
    by (metis tensor.sel(1))
  show ?thesis
    by (simp add: BilinearMapping_forward_def x ns py_range_3 h hb r0 r1 torch_iadd_same
        torch_relu_def del: subset_loop.simps)
qed

lemma TemporalConvolution_init_eq:
  "TemporalConvolution_init ci co kj k st =
     Inr (TemporalConvolution
            (Conv2d (Tensor [co, ci, k, kj] KaimingNormalFanOut) (Tensor [co] (Constant 0))
                    (st, 1) (pad_of k, 0))
            (BatchNorm (Tensor [co] (Constant 1)) (Tensor [co] (Constant 0))
                       (Tensor [co] LibraryDefault) (Tensor [co] LibraryDefault) 0))"
  by (simp add: TemporalConvolution_init_def weights_init_def init_with_def Conv2d_new_def
      BatchNorm_new_def)

lemma TemporalConvolution_init_arch:
  "TemporalConvolution_init ci co kj k st = Inr tc0 \<Longrightarrow>
   TemporalConvolution_arch tc0 = (conv_arch co ci k kj st (pad_of k), bn_arch co)"
  by (auto simp: TemporalConvolution_init_eq TemporalConvolution_arch_def Conv2d_arch_def
      BatchNorm_arch_def)

lemma TemporalConvolution_forward_shape:
  assumes arch: "TemporalConvolution_arch tc = (conv_arch co ci kh kw st ph, bn_arch co)"
    and x: "shape x = [N, ci, T, V]"
    and k: "0 < kh" "0 < kw" "0 < st" "kh \<le> T + 2 * ph" "kw \<le> V"
    and tr: "training \<longrightarrow> N * ((T + 2 * ph - kh) div st + 1) * (V - kw + 1) \<noteq> 1"
  shows "\<exists>v tc'. TemporalConvolution_forward rt training tc x =
           Inr (Tensor [N, co, (T + 2 * ph - kh) div st + 1, V - kw + 1] v, tc')"
proof -
  have c: "Conv2d_arch (t_conv tc) = ([co, ci, kh, kw], [co], (st, 1), (ph, 0))"
    and b: "BatchNorm_arch (tc_bn tc) = bn_arch co"
    using arch by (simp_all add: TemporalConvolution_arch_def)
  have cv: "Conv2d_forward rt (t_conv tc) x =
      Inr (Tensor [N, co, (T + 2 * ph - kh) div st + 1, V - kw + 1]
             (rt_conv2d rt x (conv_weight (t_conv tc)) (conv_bias (t_conv tc))
                (conv_stride (t_conv tc)) (conv_padding (t_conv tc))))"
    using Conv2d_forward_shape [OF c x, of rt] k by simp
  obtain v b' where "BatchNorm2d_forward rt training (tc_bn tc)
        (Tensor [N, co, (T + 2 * ph - kh) div st + 1, V - kw + 1]
             (rt_conv2d rt x (conv_weight (t_conv tc)) (conv_bias (t_conv tc))
                (conv_stride (t_conv tc)) (conv_padding (t_conv tc))))
       = Inr (Tensor [N, co, (T + 2 * ph - kh) div st + 1, V - kw + 1] v, b')"
    using BatchNorm2d_forward_shape [OF b, of _ N _ _ training rt] tr
    by (metis tensor.sel(1))
  then show ?thesis
    by (simp add: TemporalConvolution_forward_def cv)
qed

lemma TemporalConvolution_forward_9:
  assumes arch: "TemporalConvolution_arch tc = (conv_arch co ci 9 1 1 4, bn_arch co)"
    and x: "shape x = [N, ci, T, V]"
    and pos: "0 < T" "0 < V"
    and tr: "training \<longrightarrow> N * T * V \<noteq> 1"
  shows "\<exists>v tc'. TemporalConvolution_forward rt training tc x = Inr (Tensor [N, co, T, V] v, tc')"
proof -
  have 1: "(T + 2 * 4 - 9) div 1 + 1 = T" using pos by simp
  have 2: "V - 1 + 1 = V" using pos by simp
  show ?thesis
    using TemporalConvolution_forward_shape [OF arch x, of training rt] pos tr
    by (simp only: 1 2)
qed


lemma ebind_eq_Inr: "ebind m f = Inr b \<longleftrightarrow> (\<exists>a. m = Inr a \<and> f a = Inr b)"
  by (cases m) simp_all

lemma weights_init_conv_arch:
  "weights_init (M_Conv2d c) bs = Inr m \<Longrightarrow> Conv2d_arch (un_Conv2d m) = Conv2d_arch c"
  by (auto simp: weights_init_def init_with_def Conv2d_arch_def ebind_eq_Inr split: if_splits)

lemma g_conv_init_arch:
  assumes "g_conv_init ci co n [0, Suc 0, 2] [] = Inr g"
  shows "map Conv2d_arch g = [conv_arch co ci 1 1 1 0, conv_arch co ci 1 1 1 0, conv_arch co ci 1 1 1 0]"
proof -
  let ?c = "Conv2d_new ci co (1, 1) (1, 1) (0, 0)"
  have a: "Conv2d_arch ?c = conv_arch co ci 1 1 1 0"
    by (simp add: Conv2d_arch_def Conv2d_new_def)
  from assms obtain m0 m1 m2 where
    m0: "weights_init (M_Conv2d ?c) (real n) = Inr m0"
    and m1: "weights_init (M_Conv2d ?c) (real n) = Inr m1"
    and m2: "weights_init (M_Conv2d ?c) (real n) = Inr m2"
    and g: "g = [un_Conv2d m0, un_Conv2d m1, un_Conv2d m2]"
    by (auto simp: ebind_eq_Inr)
  show ?thesis
    using weights_init_conv_arch [OF m0] weights_init_conv_arch [OF m1]
      weights_init_conv_arch [OF m2] by (simp add: g Conv2d_arch_def Conv2d_new_def)
qed

lemma weights_init_bn2d:
  "weights_init (M_BatchNorm2d b) bs =
     Inr (M_BatchNorm2d (BatchNorm (Tensor (shape (bn_weight b)) (Constant bs))
                                   (Tensor (shape (bn_bias b)) (Constant 0))
                                   (running_mean b) (running_var b) (num_batches_tracked b)))"
  by (simp add: weights_init_def init_with_def)

lemma weights_init_conv_1:
  "weights_init (M_Conv2d c) 1 =
     Inr (M_Conv2d (Conv2d (Tensor (shape (conv_weight c)) KaimingNormalFanOut)
                           (Tensor (shape (conv_bias c)) (Constant 0))
                           (conv_stride c) (conv_padding c)))"
  by (simp add: weights_init_def init_with_def)

lemma BilinearMapping_init_arch:
  assumes "BilinearMapping_init ci co g1 g2 = Inr bm0"
  shows "BilinearMapping_arch bm0 =
      (3, [3, g1, g2],
       [conv_arch co ci 1 1 1 0, conv_arch co ci 1 1 1 0, conv_arch co ci 1 1 1 0],
       (if g1 \<noteq> g2 then conv_arch co ci g2 g1 1 0 else conv_arch co ci 1 1 1 0),
       bn_arch co, bn_arch co)"
proof -
  from assms obtain g res where
    g: "g_conv_init ci co 3 [0, Suc 0, 2] [] = Inr g"
    and res: "res = (if g1 \<noteq> g2
               then (Conv2d (Tensor [co, ci, g2, g1] KaimingNormalFanOut)
                       (Tensor [co] (Constant 0)) (1, 1) (0, 0),
                     BatchNorm (Tensor [co] (Constant 1)) (Tensor [co] (Constant 0))
                       (Tensor [co] LibraryDefault) (Tensor [co] LibraryDefault) 0)
               else (Conv2d_new ci co (1, 1) (1, 1) (0, 0), BatchNorm_new co))"
    and bm0: "bm0 = BilinearMapping 3 (Tensor [3, g1, g2] NumpyRand) g res
        (BatchNorm (Tensor [co] (Constant (1 / 1000000))) (Tensor [co] (Constant 0))
                       (Tensor [co] LibraryDefault) (Tensor [co] LibraryDefault) 0)"
    by (auto simp: BilinearMapping_init_def Let_def ebind_eq_Inr py_range_3 weights_init_conv_1
        weights_init_bn2d Conv2d_new_def BatchNorm_new_def split: if_splits)
  show ?thesis
    using g_conv_init_arch [OF g]
    by (simp add: bm0 res BilinearMapping_arch_def Conv2d_arch_def BatchNorm_arch_def
        Conv2d_new_def BatchNorm_new_def)
qed

lemma weights_init_conv_pos:
  assumes "shape (conv_weight c) = [co, ci, kh, kw]"
    and "bs \<noteq> 1" and "0 < bs" and "0 < co" and "0 < ci" and "0 < kh"
  shows "weights_init (M_Conv2d c) bs =
           Inr (M_Conv2d (Conv2d
             (Tensor (shape (conv_weight c)) (Normal 0 (Sqrt (2 / (real (co * ci * kh) * bs)))))
             (Tensor (shape (conv_bias c)) (Constant 0))
             (conv_stride c) (conv_padding c)))"
proof -
  have "0 < real (co * ci * kh) * bs" using assms by simp
  then have "sqrt_2_over (real (co * ci * kh) * bs) = Inr (Sqrt (2 / (real (co * ci * kh) * bs)))"
    by (rule sqrt_2_over_pos)
  then show ?thesis
    using assms(1,2) by (simp add: weights_init_def tensor_size_def init_with_def)
qed

lemma BilinearMapping_init_succeeds:
  assumes "0 < ci" and "0 < co"
  shows "\<exists>bm0. BilinearMapping_init ci co g1 g2 = Inr bm0"
proof -
  have "weights_init (M_Conv2d (Conv2d_new ci co (1, 1) (1, 1) (0, 0))) (real (3::nat))
      = Inr (M_Conv2d (Conv2d (Tensor [co, ci, 1, 1] (Normal 0 (Sqrt (2 / (real (co * ci * 1) * 3)))))
             (Tensor [co] (Constant 0)) (1, 1) (0, 0)))"
    using weights_init_conv_pos [of "Conv2d_new ci co (1, 1) (1, 1) (0, 0)" co ci 1 1 "real (3::nat)"] assms
    by (simp add: Conv2d_new_def)
  then show ?thesis
    by (simp add: BilinearMapping_init_def Let_def py_range_3 weights_init_conv_1
        weights_init_bn2d)
qed


lemma pad_of_9: "pad_of 9 = 4"
  by (simp add: pad_of_def)

lemma ST_BLN_block_init_arch:
  assumes "ST_BLN_block_init ci co V V 1 with_residual = Inr blk0"
  shows "ST_BLN_block_arch blk0 = block_arch co ci V with_residual"
proof -
  from assms obtain g where
    g: "BilinearMapping_init ci co V V = Inr g"
    and gb: "gcn blk0 = g"
    and tb: "TemporalConvolution_init co co 1 9 1 = Inr (tcn blk0)"
    and rb: "residual_arch (residual blk0)
              = (if with_residual then Some (conv_arch co ci 9 1 1 4, bn_arch co) else None)"
    by (cases with_residual)
      (auto simp: ST_BLN_block_init_def ebind_eq_Inr TemporalConvolution_init_eq
        residual_arch_def TemporalConvolution_arch_def Conv2d_arch_def BatchNorm_arch_def
        pad_of_9)
  show ?thesis
    using BilinearMapping_init_arch [OF g] TemporalConvolution_init_arch [OF tb] rb gb
    by (simp add: ST_BLN_block_arch_def pad_of_9)
qed

lemma ST_BLN_block_init_succeeds:
  assumes "0 < ci" and "0 < co"
  shows "\<exists>blk0. ST_BLN_block_init ci co g1 g2 st with_residual = Inr blk0"
  using BilinearMapping_init_succeeds [OF assms, of g1 g2]
  by (auto simp: ST_BLN_block_init_def TemporalConvolution_init_eq)

lemma ST_BLN_block_forward_shape:
  assumes arch: "ST_BLN_block_arch blk = block_arch co ci V with_residual"
    and x: "shape x = [N, ci, T, V]"
    and pos: "0 < T" "0 < V"
    and tr: "training \<longrightarrow> N * T * V \<noteq> 1"
  shows "\<exists>v blk'. ST_BLN_block_forward rt training blk x = Inr (Tensor [N, co, T, V] v, blk')"
proof -
  have ga: "BilinearMapping_arch (gcn blk) = bm_arch co ci V"
    and ta: "TemporalConvolution_arch (tcn blk) = (conv_arch co co 9 1 1 4, bn_arch co)"
    and ra: "residual_arch (residual blk)
               = (if with_residual then Some (conv_arch co ci 9 1 1 4, bn_arch co) else None)"
    using arch by (simp_all add: ST_BLN_block_arch_def)
  obtain gv g' where g: "BilinearMapping_forward rt training (gcn blk) x
                           = Inr (Tensor [N, co, T, V] gv, g')"
    using BilinearMapping_forward_shape [where rt = rt, OF ga x pos tr] by auto
  obtain tv t' where t: "TemporalConvolution_forward rt training (tcn blk) (Tensor [N, co, T, V] gv)
                           = Inr (Tensor [N, co, T, V] tv, t')"
    using TemporalConvolution_forward_9 [where x = "Tensor [N, co, T, V] gv" and rt = rt, OF ta _ pos tr]
    by auto
  show ?thesis
  proof (cases "residual blk")
    case Lambda_zero
    then show ?thesis
      by (simp add: ST_BLN_block_forward_def g t residual_forward_def py_add_def torch_relu_def)
  next
    case (Residual_conv tc)
    with ra have "TemporalConvolution_arch tc = (conv_arch co ci 9 1 1 4, bn_arch co)"
      by (cases with_residual) (simp_all add: residual_arch_def)
    then obtain rv r' where "TemporalConvolution_forward rt training tc x
                           = Inr (Tensor [N, co, T, V] rv, r')"
      using TemporalConvolution_forward_9 [where tc = tc and co = co and rt = rt, OF _ x pos tr]
      by auto
    with Residual_conv show ?thesis
      by (simp add: ST_BLN_block_forward_def g t residual_forward_def py_add_def torch_relu_def
          torch_add_same)
  qed
qed

lemma str_digits:
  "str (Suc 0) = ''1''" "str 2 = ''2''" "str 3 = ''3''" "str 4 = ''4''"
  "str 5 = ''5''" "str 6 = ''6''" "str 7 = ''7''"
  by (simp_all add: str.simps [of "Suc 0"] str.simps [of 2] str.simps [of 3] str.simps [of 4]
      str.simps [of 5] str.simps [of 6] str.simps [of 7] digit_def char_of_def bit_0)

lemma py_range_7: "py_range 7 = [0, Suc 0, 2, 3, 4, 5, 6]"
  by (simp add: py_range_def upt_rec)

lemma shape_Dropout_forward [simp]:
  "shape (fst (Dropout_forward rt training p rng x)) = shape x"
  by (simp add: Dropout_forward_def)

lemma layer_keys:
  "''layer'' @ str (0 + 1) = ''layer1''" "''layer'' @ str (Suc 0 + 1) = ''layer2''"
  "''layer'' @ str (2 + 1) = ''layer3''" "''layer'' @ str (3 + 1) = ''layer4''"
  "''layer'' @ str (4 + 1) = ''layer5''" "''layer'' @ str (5 + 1) = ''layer6''"
  "''layer'' @ str (6 + 1) = ''layer7''"
  by (simp_all add: str.simps digit_def char_of_def bit_0)

lemma layers_loop_step:
  assumes "''layer'' @ str (i + 1) = key"
    and "dict_get ls key = Inr blk"
    and "ST_BLN_block_arch blk = block_arch co ci V with_residual"
    and "shape x = [B, ci, T, V]" and "0 < T" "0 < V"
    and "training \<longrightarrow> B * T * V \<noteq> 1"
  shows "\<exists>v blk'. layers_loop rt training p (i # rest) ls rng x =
           layers_loop rt training p rest (dict_set ls key blk')
             (snd (Dropout_forward rt training p rng x)) (Tensor [B, co, T, V] v)"
proof -
  have "shape (fst (Dropout_forward rt training p rng x)) = [B, ci, T, V]"
    using assms(4) by simp
  then obtain v blk' where
    "ST_BLN_block_forward rt training blk (fst (Dropout_forward rt training p rng x))
       = Inr (Tensor [B, co, T, V] v, blk')"
    using ST_BLN_block_forward_shape [where rt = rt, OF assms(3) _ assms(5,6,7)] by blast
  then show ?thesis
    using assms(1,2) by (auto simp: simp del: One_nat_def)
qed

lemma layers_of_arch:
  assumes "map (\<lambda>kv. (fst kv, ST_BLN_block_arch (snd kv))) ls = layers_arch V"
  shows "\<exists>b1 b2 b3 b4 b5 b6 b7.
     ls = [(''layer1'', b1), (''layer2'', b2), (''layer3'', b3), (''layer4'', b4),
           (''layer5'', b5), (''layer6'', b6), (''layer7'', b7)]
     \<and> ST_BLN_block_arch b1 = block_arch 8 2 V False
     \<and> ST_BLN_block_arch b2 = block_arch 16 8 V True
     \<and> ST_BLN_block_arch b3 = block_arch 16 16 V True
     \<and> ST_BLN_block_arch b4 = block_arch 32 16 V True
     \<and> ST_BLN_block_arch b5 = block_arch 32 32 V True
     \<and> ST_BLN_block_arch b6 = block_arch 64 32 V True
     \<and> ST_BLN_block_arch b7 = block_arch 64 64 V True"
  using assms by (auto simp: map_eq_Cons_conv)

lemma layers_loop_shape:
  assumes ls: "map (\<lambda>kv. (fst kv, ST_BLN_block_arch (snd kv))) ls = layers_arch V"
    and x: "shape x = [B, 2, T, V]"
    and pos: "0 < T" "0 < V"
    and tr: "training \<longrightarrow> B * T * V \<noteq> 1"
  shows "\<exists>v ls' rng'. layers_loop rt training p (py_range (length ls)) ls rng x
           = Inr (Tensor [B, 64, T, V] v, ls', rng')"
proof -
  obtain b1 b2 b3 b4 b5 b6 b7 where
    l: "ls = [(''layer1'', b1), (''layer2'', b2), (''layer3'', b3), (''layer4'', b4),
           (''layer5'', b5), (''layer6'', b6), (''layer7'', b7)]"
    and a1: "ST_BLN_block_arch b1 = block_arch 8 2 V False"
    and a2: "ST_BLN_block_arch b2 = block_arch 16 8 V True"
    and a3: "ST_BLN_block_arch b3 = block_arch 16 16 V True"
    and a4: "ST_BLN_block_arch b4 = block_arch 32 16 V True"
    and a5: "ST_BLN_block_arch b5 = block_arch 32 32 V True"
    and a6: "ST_BLN_block_arch b6 = block_arch 64 32 V True"
    and a7: "ST_BLN_block_arch b7 = block_arch 64 64 V True"
    using layers_of_arch [OF ls] by blast
  have len: "length ls = 7"
    by (simp add: l)
  have r: "py_range (length ls) = [0, Suc 0, 2, 3, 4, 5, 6]"
    by (simp only: len py_range_7)
  note step = layers_loop_step [where rt = rt and training = training and p = p and T = T
      and V = V and B = B, OF _ _ _ _ pos tr]
  let ?L0 = "[(''layer1'', b1), (''layer2'', b2), (''layer3'', b3), (''layer4'', b4),
         (''layer5'', b5), (''layer6'', b6), (''layer7'', b7)]"
  have g1: "dict_get ?L0 ''layer1'' = Inr b1"
    by (simp add: dict_get_def)
  have x1: "shape x = [B, 2, T, V]"
    by (simp add: x)
  obtain v1 c1 r1 where s1: "layers_loop rt training p [0, Suc 0, 2, 3, 4, 5, 6] ?L0 rng x =
      layers_loop rt training p [Suc 0, 2, 3, 4, 5, 6] (dict_set ?L0 ''layer1'' c1) r1 (Tensor [B, 8, T, V] v1)"
    using step [OF layer_keys(1) g1 a1 x1] by blast
  have d1: "dict_set ?L0 ''layer1'' c1 = [(''layer1'', c1), (''layer2'', b2), (''layer3'', b3), (''layer4'', b4),
         (''layer5'', b5), (''layer6'', b6), (''layer7'', b7)]"
    by simp
  let ?L1 = "[(''layer1'', c1), (''layer2'', b2), (''layer3'', b3), (''layer4'', b4),
         (''layer5'', b5), (''layer6'', b6), (''layer7'', b7)]"
  have g2: "dict_get ?L1 ''layer2'' = Inr b2"
    by (simp add: dict_get_def)
  have x2: "shape (Tensor [B, 8, T, V] v1) = [B, 8, T, V]"
    by (simp)
  obtain v2 c2 r2 where s2: "layers_loop rt training p [Suc 0, 2, 3, 4, 5, 6] ?L1 r1 (Tensor [B, 8, T, V] v1) =
      layers_loop rt training p [2, 3, 4, 5, 6] (dict_set ?L1 ''layer2'' c2) r2 (Tensor [B, 16, T, V] v2)"
    using step [OF layer_keys(2) g2 a2 x2] by blast
  have d2: "dict_set ?L1 ''layer2'' c2 = [(''layer1'', c1), (''layer2'', c2), (''layer3'', b3), (''layer4'', b4),
         (''layer5'', b5), (''layer6'', b6), (''layer7'', b7)]"
    by simp
  let ?L2 = "[(''layer1'', c1), (''layer2'', c2), (''layer3'', b3), (''layer4'', b4),
         (''layer5'', b5), (''layer6'', b6), (''layer7'', b7)]"
  have g3: "dict_get ?L2 ''layer3'' = Inr b3"
    by (simp add: dict_get_def)
  have x3: "shape (Tensor [B, 16, T, V] v2) = [B, 16, T, V]"
    by (simp)
  obtain v3 c3 r3 where s3: "layers_loop rt training p [2, 3, 4, 5, 6] ?L2 r2 (Tensor [B, 16, T, V] v2) =
      layers_loop rt training p [3, 4, 5, 6] (dict_set ?L2 ''layer3'' c3) r3 (Tensor [B, 16, T, V] v3)"
    using step [OF layer_keys(3) g3 a3 x3] by blast
  have d3: "dict_set ?L2 ''layer3'' c3 = [(''layer1'', c1), (''layer2'', c2), (''layer3'', c3), (''layer4'', b4),
         (''layer5'', b5), (''layer6'', b6), (''layer7'', b7)]"
    by simp
  let ?L3 = "[(''layer1'', c1), (''layer2'', c2), (''layer3'', c3), (''layer4'', b4),
         (''layer5'', b5), (''layer6'', b6), (''layer7'', b7)]"
  have g4: "dict_get ?L3 ''layer4'' = Inr b4"
    by (simp add: dict_get_def)
  have x4: "shape (Tensor [B, 16, T, V] v3) = [B, 16, T, V]"
    by (simp)
  obtain v4 c4 r4 where s4: "layers_loop rt training p [3, 4, 5, 6] ?L3 r3 (Tensor [B, 16, T, V] v3) =
      layers_loop rt training p [4, 5, 6] (dict_set ?L3 ''layer4'' c4) r4 (Tensor [B, 32, T, V] v4)"
    using step [OF layer_keys(4) g4 a4 x4] by blast
  have d4: "dict_set ?L3 ''layer4'' c4 = [(''layer1'', c1), (''layer2'', c2), (''layer3'', c3), (''layer4'', c4),
         (''layer5'', b5), (''layer6'', b6), (''layer7'', b7)]"
    by simp
  let ?L4 = "[(''layer1'', c1), (''layer2'', c2), (''layer3'', c3), (''layer4'', c4),
         (''layer5'', b5), (''layer6'', b6), (''layer7'', b7)]"
  have g5: "dict_get ?L4 ''layer5'' = Inr b5"
    by (simp add: dict_get_def)
  have x5: "shape (Tensor [B, 32, T, V] v4) = [B, 32, T, V]"
    by (simp)
  obtain v5 c5 r5 where s5: "layers_loop rt training p [4, 5, 6] ?L4 r4 (Tensor [B, 32, T, V] v4) =
      layers_loop rt training p [5, 6] (dict_set ?L4 ''layer5'' c5) r5 (Tensor [B, 32, T, V] v5)"
    using step [OF layer_keys(5) g5 a5 x5] by blast
  have d5: "dict_set ?L4 ''layer5'' c5 = [(''layer1'', c1), (''layer2'', c2), (''layer3'', c3), (''layer4'', c4),
         (''layer5'', c5), (''layer6'', b6), (''layer7'', b7)]"
    by simp
  let ?L5 = "[(''layer1'', c1), (''layer2'', c2), (''layer3'', c3), (''layer4'', c4),
         (''layer5'', c5), (''layer6'', b6), (''layer7'', b7)]"
  have g6: "dict_get ?L5 ''layer6'' = Inr b6"
    by (simp add: dict_get_def)
  have x6: "shape (Tensor [B, 32, T, V] v5) = [B, 32, T, V]"
    by (simp)
  obtain v6 c6 r6 where s6: "layers_loop rt training p [5, 6] ?L5 r5 (Tensor [B, 32, T, V] v5) =
      layers_loop rt training p [6] (dict_set ?L5 ''layer6'' c6) r6 (Tensor [B, 64, T, V] v6)"
    using step [OF layer_keys(6) g6 a6 x6] by blast
  have d6: "dict_set ?L5 ''layer6'' c6 = [(''layer1'', c1), (''layer2'', c2), (''layer3'', c3), (''layer4'', c4),
         (''layer5'', c5), (''layer6'', c6), (''layer7'', b7)]"
    by simp
  let ?L6 = "[(''layer1'', c1), (''layer2'', c2), (''layer3'', c3), (''layer4'', c4),
         (''layer5'', c5), (''layer6'', c6), (''layer7'', b7)]"
  have g7: "dict_get ?L6 ''layer7'' = Inr b7"
    by (simp add: dict_get_def)
  have x7: "shape (Tensor [B, 64, T, V] v6) = [B, 64, T, V]"
    by (simp)
  obtain v7 c7 r7 where s7: "layers_loop rt training p [6] ?L6 r6 (Tensor [B, 64, T, V] v6) =
      layers_loop rt training p [] (dict_set ?L6 ''layer7'' c7) r7 (Tensor [B, 64, T, V] v7)"
    using step [OF layer_keys(7) g7 a7 x7] by blast
  have d7: "dict_set ?L6 ''layer7'' c7 = [(''layer1'', c1), (''layer2'', c2), (''layer3'', c3), (''layer4'', c4),
         (''layer5'', c5), (''layer6'', c6), (''layer7'', c7)]"
    by simp
  show ?thesis
    unfolding r
    unfolding l s1 d1 s2 d2 s3 d3 s4 d4 s5 d5 s6 d6 s7 d7 by simp
qed

lemma weights_init_linear_arch:
  "weights_init (M_Linear l) bs = Inr m \<Longrightarrow> Linear_arch (un_Linear m) = Linear_arch l"
  by (auto simp: weights_init_def init_with_def Linear_arch_def ebind_eq_Inr)

lemma STBLN_init_arch:
  assumes "STBLN_init num_class num_point num_person in_channels = Inr m0"
  shows "STBLN_arch m0 = stbln_arch num_class num_point num_person in_channels"
proof -
  from assms obtain l1 l2 l3 l4 l5 l6 l7 f where
    l: "ST_BLN_block_init 2 8 num_point num_point 1 False = Inr l1"
       "ST_BLN_block_init 8 16 num_point num_point 1 True = Inr l2"
       "ST_BLN_block_init 16 16 num_point num_point 1 True = Inr l3"
       "ST_BLN_block_init 16 32 num_point num_point 1 True = Inr l4"
       "ST_BLN_block_init 32 32 num_point num_point 1 True = Inr l5"
       "ST_BLN_block_init 32 64 num_point num_point 1 True = Inr l6"
       "ST_BLN_block_init 64 64 num_point num_point 1 True = Inr l7"
    and f: "weights_init (M_Linear (Linear_new 64 num_class)) (real num_class) = Inr f"
    and m0: "m0 = STBLN (BatchNorm_new (num_person * in_channels * num_point)) (2 / 10)
              [(''layer1'', l1), (''layer2'', l2), (''layer3'', l3), (''layer4'', l4),
               (''layer5'', l5), (''layer6'', l6), (''layer7'', l7)] (un_Linear f)"
    unfolding STBLN_init_def ebind_eq_Inr
    by (auto simp: weights_init_def)
  show ?thesis
    using l [THEN ST_BLN_block_init_arch] weights_init_linear_arch [OF f]
    by (simp add: m0 STBLN_arch_def BatchNorm_arch_def BatchNorm_new_def Linear_arch_def
        Linear_new_def)
qed

lemma STBLN_init_succeeds:
  assumes "0 < num_class"
  shows "\<exists>m0. STBLN_init num_class num_point num_person in_channels = Inr m0"
proof -
  have f: "\<exists>f. weights_init (M_Linear (Linear_new 64 num_class)) (real num_class) = Inr f"
    using assms by (simp add: weights_init_def sqrt_2_over_def)
  have b: "\<exists>blk. ST_BLN_block_init ci co num_point num_point 1 wr = Inr blk"
    if "0 < ci" "0 < co" for ci co wr
    using ST_BLN_block_init_succeeds [OF that] by blast
  obtain l1 where l1: "ST_BLN_block_init 2 8 num_point num_point 1 False = Inr l1"
    using b [of 2 8 False] by auto
  obtain l2 where l2: "ST_BLN_block_init 8 16 num_point num_point 1 True = Inr l2"
    using b [of 8 16 True] by auto
  obtain l3 where l3: "ST_BLN_block_init 16 16 num_point num_point 1 True = Inr l3"
    using b [of 16 16 True] by auto
  obtain l4 where l4: "ST_BLN_block_init 16 32 num_point num_point 1 True = Inr l4"
    using b [of 16 32 True] by auto
  obtain l5 where l5: "ST_BLN_block_init 32 32 num_point num_point 1 True = Inr l5"
    using b [of 32 32 True] by auto
  obtain l6 where l6: "ST_BLN_block_init 32 64 num_point num_point 1 True = Inr l6"
    using b [of 32 64 True] by auto
  obtain l7 where l7: "ST_BLN_block_init 64 64 num_point num_point 1 True = Inr l7"
    using b [of 64 64 True] by auto
  from f obtain f0 where f0: "weights_init (M_Linear (Linear_new 64 num_class)) (real num_class) = Inr f0"
    by blast
  have d: "weights_init (M_BatchNorm1d b) 1 = Inr (M_BatchNorm1d b)" for b
    by (simp add: weights_init_def)
  show ?thesis
    unfolding STBLN_init_def by (simp add: d l1 l2 l3 l4 l5 l6 l7 f0 del: One_nat_def)
qed


lemma torch_view_last3:
  assumes "a * b * c \<noteq> 0" and "prod_list (shape x) = a * b * c * k"
  shows "torch_view x [int a, int b, int c, - 1] = Inr (Tensor [a, b, c, k] (data x))"
proof -
  have "prod_list [a, b, c] \<noteq> 0" using assms(1) by (simp add: mult.assoc)
  moreover have "prod_list (shape x) mod prod_list [a, b, c] = 0"
    using assms(2) by (simp add: mult.assoc)
  moreover have "prod_list (shape x) div prod_list [a, b, c] = k"
    using assms by (simp add: mult.assoc)
  ultimately show ?thesis
    using torch_view_last [of "[a, b, c]" x] by simp
qed

lemma BatchNorm1d_forward_shape:
  assumes "BatchNorm_arch b = bn_arch c"
    and "shape x = [n, c, l]"
    and "training \<longrightarrow> n * l \<noteq> 1"
  shows "\<exists>v b'. BatchNorm1d_forward rt training b x = Inr (Tensor [n, c, l] v, b')"
proof -
  have "training \<longrightarrow> size_prods (shape x) \<noteq> 1"
    using assms(2,3) by (simp add: size_prods_def)
  then show ?thesis
    using batch_norm_forward_shape [OF assms(1), of x training rt] assms(2)
    by (auto simp: BatchNorm1d_forward_def)
qed

lemma STBLN_forward_shape:
  assumes arch: "STBLN_arch m = stbln_arch num_class V M 2"
    and x: "shape x = [N, 2, T, V, M]"
    and pos: "0 < N" "0 < T" "0 < V" "0 < M"
    and tr: "training \<longrightarrow> N * T \<noteq> 1"
  shows "\<exists>v m' rng'. STBLN_forward rt training m rng x = Inr (Tensor [N, num_class] v, m', rng')"
proof -
  have da: "BatchNorm_arch (data_bn m) = bn_arch (M * V * 2)"
    and la: "map (\<lambda>kv. (fst kv, ST_BLN_block_arch (snd kv))) (layers m) = layers_arch V"
    and fa: "Linear_arch (fc m) = ([num_class, 64], [num_class])"
    using arch by (simp_all add: STBLN_arch_def mult.commute mult.left_commute)
  obtain d1 where p1: "torch_permute rt x [0, 4, 3, Suc 0, 2] = Inr (Tensor [N, M, V, 2, T] d1)"
    by (simp add: torch_permute_def x)
  have v1: "torch_view (Tensor [N, M, V, 2, T] d1) [int N, int (M * V * 2), int T]
              = Inr (Tensor [N, M * V * 2, T] d1)"
    using torch_view3 [of N "M * V * 2" T "Tensor [N, M, V, 2, T] d1"] by (simp add: mult.assoc)
  obtain d2 b' where bn: "BatchNorm1d_forward rt training (data_bn m) (Tensor [N, M * V * 2, T] d1)
                           = Inr (Tensor [N, M * V * 2, T] d2, b')"
    using BatchNorm1d_forward_shape [where rt = rt, OF da _ tr, of "Tensor [N, M * V * 2, T] d1"]
    by auto
  have v2: "torch_view (Tensor [N, M * V * 2, T] d2) [int N, int M, int V, int 2, int T]
              = Inr (Tensor [N, M, V, 2, T] d2)"
    using torch_view5 [of N M V 2 T "Tensor [N, M * V * 2, T] d2"] by (simp add: mult.assoc)
  obtain d3 where p2: "torch_permute rt (Tensor [N, M, V, 2, T] d2) [0, Suc 0, 3, 4, 2]
                         = Inr (Tensor [N, M, 2, T, V] d3)"
    by (simp add: torch_permute_def)
  have v3: "torch_view (Tensor [N, M, 2, T, V] d3) [int (N * M), int 2, int T, int V]
              = Inr (Tensor [N * M, 2, T, V] d3)"
    using torch_view4 [of "N * M" 2 T V "Tensor [N, M, 2, T, V] d3"] by (simp add: mult.assoc)
  have tr': "training \<longrightarrow> N * M * T * V \<noteq> 1"
  proof
    assume training
    with tr pos have a: "2 \<le> N * T" by (cases "N * T") auto
    have "1 \<le> M * V" using pos by (simp add: Suc_le_eq)
    then have "N * T * 1 \<le> N * T * (M * V)" by (rule mult_le_mono2)
    then have "N * T \<le> N * T * (M * V)" by (simp only: mult_1_right)
    with a have "2 \<le> N * T * (M * V)" by linarith
    moreover have "N * M * T * V = N * T * (M * V)" by (simp add: ac_simps)
    ultimately show "N * M * T * V \<noteq> 1" by linarith
  qed
  obtain d4 ls' rng' where ll:
    "layers_loop rt training (dropout_p m) (py_range (length (layers m))) (layers m) rng
       (Tensor [N * M, 2, T, V] d3) = Inr (Tensor [N * M, 64, T, V] d4, ls', rng')"
    using layers_loop_shape [where rt = rt and rng = rng and p = "dropout_p m", OF la _ pos(2,3) tr',
        of "Tensor [N * M, 2, T, V] d3"]
    by auto
  have v4: "torch_view (Tensor [N * M, 64, T, V] d4) [int N, int M, int 64, - 1]
              = Inr (Tensor [N, M, 64, T * V] d4)"
    using torch_view_last3 [of N M 64 "Tensor [N * M, 64, T, V] d4" "T * V"] pos
    by (simp add: mult.assoc)
  obtain d5 where m1: "torch_mean rt (Tensor [N, M, 64, T * V] d4) 3 = Inr (Tensor [N, M, 64] d5)"
    by (simp add: torch_mean_def)
  obtain d6 where m2: "torch_mean rt (Tensor [N, M, 64] d5) (Suc 0) = Inr (Tensor [N, 64] d6)"
    by (simp add: torch_mean_def)
  obtain d7 where li: "Linear_forward rt (fc m) (Tensor [N, 64] d6) = Inr (Tensor [N, num_class] d7)"
    using fa by (simp add: Linear_forward_def torch_linear_def Linear_arch_def)
  show ?thesis
    by (simp add: STBLN_forward_def x p1 v1 bn v2 p2 v3 ll tensor_size_def v4 m1 m2 li
        del: of_nat_mult of_nat_numeral)
qed

section \<open>The claims on shapes\<close>

text \<open>Giving a constructed module contents does not change its architecture.\<close>

lemma shape_map_tensor [simp]: "shape (map_tensor f t) = shape t"
  by (cases t) simp

lemma Conv2d_arch_map [simp]: "Conv2d_arch (map_Conv2d f c) = Conv2d_arch c"
  by (cases c) (simp add: Conv2d_arch_def)

lemma BatchNorm_arch_map [simp]: "BatchNorm_arch (map_BatchNorm f b) = BatchNorm_arch b"
  by (cases b) (simp add: BatchNorm_arch_def)

lemma Linear_arch_map [simp]: "Linear_arch (map_Linear f l) = Linear_arch l"
  by (cases l) (simp add: Linear_arch_def)

lemma BilinearMapping_arch_map [simp]:
  "BilinearMapping_arch (map_BilinearMapping f bm) = BilinearMapping_arch bm"
  by (cases bm) (auto simp: BilinearMapping_arch_def)

lemma TemporalConvolution_arch_map [simp]:
  "TemporalConvolution_arch (map_TemporalConvolution f tc) = TemporalConvolution_arch tc"
  by (cases tc) (simp add: TemporalConvolution_arch_def)

lemma residual_arch_map [simp]: "residual_arch (map_residual_path f r) = residual_arch r"
  by (cases r) (simp_all add: residual_arch_def)

lemma ST_BLN_block_arch_map [simp]:
  "ST_BLN_block_arch (map_ST_BLN_block f blk) = ST_BLN_block_arch blk"
  by (cases blk) (simp add: ST_BLN_block_arch_def)

lemma STBLN_arch_map [simp]: "STBLN_arch (map_STBLN f m) = STBLN_arch m"
  by (cases m) (auto simp: STBLN_arch_def)

text \<open>
  Claim C1.  Let \<open>m\<close> have the architecture of \<^verbatim>\<open>STBLN(num_class)\<close>, constructed
  with the defaults \<open>num_point = 51\<close>, \<open>num_person = 1\<close>, \<open>in_channels = 2\<close>, with
  any contents of its parameters, in either mode.  On every input of shape
  \<open>[N, 2, T, 51, 1]\<close> with a non-empty batch and at least one frame, and more than
  one value per channel when in training mode, \<^verbatim>\<open>forward\<close> returns, and its
  result has shape \<open>[N, num_class]\<close>.
\<close>

theorem STBLN_forward_output_shape:
  assumes "STBLN_init num_class 51 1 2 = Inr m0"
    and "STBLN_arch m = STBLN_arch m0"
    and "shape x = [N, 2, T, 51, 1]"
    and "0 < N" and "0 < T"
    and "training \<longrightarrow> N * T \<noteq> 1"
  shows "\<exists>y m' rng'. STBLN_forward rt training m rng x = Inr (y, m', rng')
           \<and> shape y = [N, num_class]"
proof -
  have "STBLN_arch m = stbln_arch num_class 51 1 2"
    using STBLN_init_arch [OF assms(1)] assms(2) by simp
  then obtain v m' rng' where
    "STBLN_forward rt training m rng x = Inr (Tensor [N, num_class] v, m', rng')"
    using STBLN_forward_shape [where rt = rt and rng = rng and training = training
        and m = m and x = x and N = N and T = T and V = 51 and M = 1 and num_class = num_class]
      assms(3-6)
    by auto
  then show ?thesis by simp
qed

text \<open>
  The network for six classes, in training mode, on a batch of two sequences of
  thirty frames.
\<close>

theorem STBLN_forward_output_shape_witness:
  "\<exists>m0. STBLN_init 6 51 1 2 = Inr m0
      \<and> STBLN_arch (map_STBLN draw m0) = STBLN_arch m0
      \<and> shape (Tensor [2, 2, 30, 51, 1] (0::int)) = [2, 2, 30, 51, 1]
      \<and> (0::nat) < 2 \<and> (0::nat) < 30 \<and> (True \<longrightarrow> (2::nat) * 30 \<noteq> 1)
      \<and> (\<exists>y m' rng'. STBLN_forward scalar_rt True (map_STBLN draw m0) (0::nat)
                          (Tensor [2, 2, 30, 51, 1] 0) = Inr (y, m', rng')
             \<and> shape y = [2, 6])"
proof -
  obtain m0 where m0: "STBLN_init 6 51 1 2 = Inr m0"
    using STBLN_init_succeeds [of 6 51 1 2] by auto
  show ?thesis
    using STBLN_forward_output_shape [OF m0, of "map_STBLN draw m0"
        "Tensor [2, 2, 30, 51, 1] 0" 2 30 True scalar_rt 0] m0
    by simp
qed

text \<open>
  Claim C10.  In a constructed \<^verbatim>\<open>BilinearMapping\<close> with
  \<open>graph_dim1 = graph_dim2\<close> the residual path is the \<open>1 \<times> 1\<close> convolution and the
  normalization layer exactly as their constructors leave them: neither has been
  handed to \<^verbatim>\<open>weights_init\<close>, all four parameters hold the library's default.  With
  \<open>graph_dim1 \<noteq> graph_dim2\<close> both layers are what \<^verbatim>\<open>weights_init\<close> with \<open>bs = 1\<close>
  makes of them.
\<close>

theorem gcn_residual_initialization:
  assumes "BilinearMapping_init in_channels out_channels graph_dim1 graph_dim2 = Inr bm"
  shows "(graph_dim1 = graph_dim2 \<longrightarrow>
            gcn_residual bm =
              (Conv2d_new in_channels out_channels (1, 1) (1, 1) (0, 0),
               BatchNorm_new out_channels)
          \<and> map data (Conv2d_parameters (fst (gcn_residual bm)))
              = [LibraryDefault, LibraryDefault]
          \<and> map data (BatchNorm_parameters (snd (gcn_residual bm)))
              = [LibraryDefault, LibraryDefault])
       \<and> (graph_dim1 \<noteq> graph_dim2 \<longrightarrow>
            weights_init (M_Conv2d (Conv2d_new in_channels out_channels
                                      (graph_dim2, graph_dim1) (1, 1) (0, 0))) 1
              = Inr (M_Conv2d (fst (gcn_residual bm)))
          \<and> weights_init (M_BatchNorm2d (BatchNorm_new out_channels)) 1
              = Inr (M_BatchNorm2d (snd (gcn_residual bm)))
          \<and> map data (Conv2d_parameters (fst (gcn_residual bm)))
              = [KaimingNormalFanOut, Constant 0]
          \<and> map data (BatchNorm_parameters (snd (gcn_residual bm)))
              = [Constant 1, Constant 0])"
  using assms
  by (auto simp: BilinearMapping_init_def Let_def ebind_eq_Inr weights_init_conv_1
      weights_init_bn2d Conv2d_new_def BatchNorm_new_def Conv2d_parameters_def
      BatchNorm_parameters_def)

text \<open>
  The \<^verbatim>\<open>BilinearMapping\<close> of the first block, \<open>graph_dim1 = graph_dim2 = 51\<close>.
\<close>

theorem gcn_residual_initialization_witness:
  "\<exists>bm. BilinearMapping_init 2 8 51 51 = Inr bm
      \<and> ((51::nat) = 51 \<longrightarrow>
            gcn_residual bm = (Conv2d_new 2 8 (1, 1) (1, 1) (0, 0), BatchNorm_new 8)
          \<and> map data (Conv2d_parameters (fst (gcn_residual bm)))
              = [LibraryDefault, LibraryDefault]
          \<and> map data (BatchNorm_parameters (snd (gcn_residual bm)))
              = [LibraryDefault, LibraryDefault])"
proof -
  obtain bm where bm: "BilinearMapping_init 2 8 51 51 = Inr bm"
    using BilinearMapping_init_succeeds [of 2 8 51 51] by auto
  show ?thesis
    by (rule exI [of _ bm])
      (rule conjI [OF bm gcn_residual_initialization [OF bm, THEN conjunct1]])
qed

text \<open>
  And one with \<open>graph_dim1 = 51\<close>, \<open>graph_dim2 = 25\<close>.
\<close>

lemma unequal_dims_residual_initialized:
  "\<exists>bm. BilinearMapping_init 2 8 51 25 = Inr bm
      \<and> map data (Conv2d_parameters (fst (gcn_residual bm))) = [KaimingNormalFanOut, Constant 0]
      \<and> map data (BatchNorm_parameters (snd (gcn_residual bm))) = [Constant 1, Constant 0]"
proof -
  obtain bm where bm: "BilinearMapping_init 2 8 51 25 = Inr bm"
    using BilinearMapping_init_succeeds [of 2 8 51 25] by auto
  then show ?thesis
    by (auto simp: BilinearMapping_init_def Let_def ebind_eq_Inr weights_init_conv_1
      weights_init_bn2d Conv2d_new_def BatchNorm_new_def Conv2d_parameters_def
      BatchNorm_parameters_def)
qed

text \<open>
  For an odd kernel height \<open>k\<close> the padding \<open>int((k - 1) / 2)\<close> on both sides adds
  exactly \<open>k - 1\<close> rows.
\<close>

lemma pad_of_odd: "odd k \<Longrightarrow> 2 * pad_of k = k - 1"
  by (auto simp: pad_of_def elim!: oddE)

text \<open>
  Claim C6, as amended.  A \<^verbatim>\<open>TemporalConvolution\<close> with stride \<open>1\<close> and an \<^emph>\<open>odd\<close>
  kernel height returns, on an input \<open>[N, C_in, T, V]\<close> with at least one frame and
  at least \<open>kernel_size_joint\<close> joints, a tensor with the same time length \<open>T\<close>.
\<close>

theorem TemporalConvolution_preserves_time:
  assumes "TemporalConvolution_init in_channels out_channels kernel_size_joint kernel_size 1 = Inr tc0"
    and "TemporalConvolution_arch tc = TemporalConvolution_arch tc0"
    and "odd kernel_size"
    and "shape x = [N, in_channels, T, V]"
    and "0 < T" and "0 < kernel_size_joint" and "kernel_size_joint \<le> V"
    and "training \<longrightarrow> N * T * (V - kernel_size_joint + 1) \<noteq> 1"
  shows "\<exists>y tc'. TemporalConvolution_forward rt training tc x = Inr (y, tc')
           \<and> shape y = [N, out_channels, T, V - kernel_size_joint + 1]"
proof -
  let ?p = "pad_of kernel_size"
  have a: "TemporalConvolution_arch tc
             = (conv_arch out_channels in_channels kernel_size kernel_size_joint 1 ?p,
                bn_arch out_channels)"
    using TemporalConvolution_init_arch [OF assms(1)] assms(2) by simp
  have k: "0 < kernel_size" using assms(3) by (cases kernel_size) simp_all
  have p: "2 * ?p = kernel_size - 1" by (rule pad_of_odd [OF assms(3)])
  have le: "kernel_size \<le> T + 2 * ?p" using p k assms(5) by simp
  have t: "(T + 2 * ?p - kernel_size) div 1 + 1 = T" using p k assms(5) by simp
  obtain v tc' where "TemporalConvolution_forward rt training tc x =
      Inr (Tensor [N, out_channels, (T + 2 * ?p - kernel_size) div 1 + 1,
                   V - kernel_size_joint + 1] v, tc')"
    using TemporalConvolution_forward_shape [where rt = rt and training = training,
        OF a assms(4) k assms(6) _ le assms(7)] assms(8)
    unfolding t by auto
  then show ?thesis
    unfolding t by simp
qed

text \<open>
  The default kernel height \<open>9\<close> on five frames.
\<close>

theorem TemporalConvolution_preserves_time_witness:
  "\<exists>tc0. TemporalConvolution_init 2 8 1 9 1 = Inr tc0
     \<and> TemporalConvolution_arch (map_TemporalConvolution draw tc0) = TemporalConvolution_arch tc0
     \<and> odd (9::nat)
     \<and> shape (Tensor [1, 2, 5, 51] (0::int)) = [1, 2, 5, 51]
     \<and> (0::nat) < 5 \<and> (0::nat) < 1 \<and> (1::nat) \<le> 51
     \<and> (False \<longrightarrow> (1::nat) * 5 * (51 - 1 + 1) \<noteq> 1)
     \<and> (\<exists>y tc'. TemporalConvolution_forward scalar_rt False (map_TemporalConvolution draw tc0)
                     (Tensor [1, 2, 5, 51] 0) = Inr (y, tc')
            \<and> shape y = [1, 8, 5, 51])"
proof -
  obtain tc0 where tc0: "TemporalConvolution_init 2 8 1 9 1 = Inr tc0"
    by (simp add: TemporalConvolution_init_eq)
  show ?thesis
    using TemporalConvolution_preserves_time [OF tc0, of "map_TemporalConvolution draw tc0"
        "Tensor [1, 2, 5, 51] 0" 1 5 51 False scalar_rt] tc0
    by simp
qed

text \<open>
  Claim C6 as stated fails for an even kernel height: with \<open>kernel_size_ = 2\<close> the
  padding is \<open>int(0.5) = 0\<close>, and five frames come out as four.
\<close>

theorem TemporalConvolution_preserves_time_counterexample:
  "map_sum id (shape \<circ> fst)
     (TemporalConvolution_run scalar_rt False draw 2 8 1 2 1 (Tensor [1, 2, 5, 51] 0))
   = Inr [1, 8, 4, 51]"
  by (simp add: TemporalConvolution_run_def TemporalConvolution_init_eq
      TemporalConvolution_forward_def Conv2d_forward_def torch_conv2d_def pad_of_def
      BatchNorm2d_forward_def batch_norm_forward_def)

lemma less_7_cases:
  "i < 7 \<Longrightarrow> i = 0 \<or> i = 1 \<or> i = 2 \<or> i = 3 \<or> i = 4 \<or> i = 5 \<or> i = (6::nat)"
  by arith

text \<open>
  Claim C5.  Let \<open>m\<close> have the architecture of a constructed \<^verbatim>\<open>STBLN\<close> with
  \<open>num_point\<close> joints.  Each of its seven blocks, given an input with the block's
  number of input channels and \<open>num_point\<close> joints, returns a tensor with the
  block's number of output channels, the same time length and \<open>num_point\<close> joints;
  and the loop over the seven blocks takes \<open>[B, 2, T, num_point]\<close> to
  \<open>[B, 64, T, num_point]\<close>.
\<close>

theorem joint_dimension_preserved:
  assumes "STBLN_init num_class num_point num_person in_channels = Inr m0"
    and "STBLN_arch m = STBLN_arch m0"
    and "0 < num_point" and "0 < T"
    and "training \<longrightarrow> B * T * num_point \<noteq> 1"
  shows "(\<forall>i<7. \<forall>x. shape x = [B, [2, 8, 16, 16, 32, 32, 64] ! i, T, num_point] \<longrightarrow>
            (\<exists>y blk'. ST_BLN_block_forward rt training (snd (layers m ! i)) x = Inr (y, blk')
               \<and> shape y = [B, [8, 16, 16, 32, 32, 64, 64] ! i, T, num_point]))
       \<and> (\<forall>x rng. shape x = [B, 2, T, num_point] \<longrightarrow>
            (\<exists>y ls' rng'. layers_loop rt training (dropout_p m) (py_range (length (layers m)))
                             (layers m) rng x = Inr (y, ls', rng')
               \<and> shape y = [B, 64, T, num_point]))"
proof -
  have "STBLN_arch m = stbln_arch num_class num_point num_person in_channels"
    using STBLN_init_arch [OF assms(1)] assms(2) by simp
  then have la: "map (\<lambda>kv. (fst kv, ST_BLN_block_arch (snd kv))) (layers m) = layers_arch num_point"
    by (simp add: STBLN_arch_def)
  obtain b1 b2 b3 b4 b5 b6 b7 where
    l: "layers m = [(''layer1'', b1), (''layer2'', b2), (''layer3'', b3), (''layer4'', b4),
           (''layer5'', b5), (''layer6'', b6), (''layer7'', b7)]"
    and a: "ST_BLN_block_arch b1 = block_arch 8 2 num_point False"
      "ST_BLN_block_arch b2 = block_arch 16 8 num_point True"
      "ST_BLN_block_arch b3 = block_arch 16 16 num_point True"
      "ST_BLN_block_arch b4 = block_arch 32 16 num_point True"
      "ST_BLN_block_arch b5 = block_arch 32 32 num_point True"
      "ST_BLN_block_arch b6 = block_arch 64 32 num_point True"
      "ST_BLN_block_arch b7 = block_arch 64 64 num_point True"
    using layers_of_arch [OF la] by blast
  note blk = ST_BLN_block_forward_shape [where rt = rt and training = training and N = B
      and T = T and V = num_point, OF _ _ assms(4,3,5)]
  have one: "\<exists>y blk'. ST_BLN_block_forward rt training (snd (layers m ! i)) x = Inr (y, blk')
               \<and> shape y = [B, [8, 16, 16, 32, 32, 64, 64] ! i, T, num_point]"
    if i: "i < 7" and x: "shape x = [B, [2, 8, 16, 16, 32, 32, 64] ! i, T, num_point]" for i x
  proof -
    from less_7_cases [OF i] show ?thesis
    proof (elim disjE)
      assume "i = 0"
      with x blk [OF a(1), of x] show ?thesis by (auto simp: l)
    next
      assume "i = 1"
      with x blk [OF a(2), of x] show ?thesis by (auto simp: l)
    next
      assume "i = 2"
      with x blk [OF a(3), of x] show ?thesis by (auto simp: l)
    next
      assume "i = 3"
      with x blk [OF a(4), of x] show ?thesis by (auto simp: l)
    next
      assume "i = 4"
      with x blk [OF a(5), of x] show ?thesis by (auto simp: l)
    next
      assume "i = 5"
      with x blk [OF a(6), of x] show ?thesis by (auto simp: l)
    next
      assume "i = 6"
      with x blk [OF a(7), of x] show ?thesis by (auto simp: l)
    qed
  qed
  have stack: "\<exists>y ls' rng'. layers_loop rt training (dropout_p m) (py_range (length (layers m)))
                             (layers m) rng x = Inr (y, ls', rng')
               \<and> shape y = [B, 64, T, num_point]"
    if x: "shape x = [B, 2, T, num_point]" for x rng
    using layers_loop_shape [where rt = rt and rng = rng and p = "dropout_p m"
        and training = training, OF la x assms(4,3,5)]
    by auto
  show ?thesis
    using one stack by blast
qed

text \<open>
  The default network in training mode: its fourth block, and the whole stack.
\<close>

theorem joint_dimension_preserved_witness:
  "\<exists>m0. STBLN_init 6 51 1 2 = Inr m0
     \<and> STBLN_arch (map_STBLN draw m0) = STBLN_arch m0
     \<and> (0::nat) < 51 \<and> (0::nat) < 30 \<and> (True \<longrightarrow> (2::nat) * 30 * 51 \<noteq> 1)
     \<and> (\<exists>y blk'. ST_BLN_block_forward scalar_rt True (snd (layers (map_STBLN draw m0) ! 3))
                      (Tensor [2, 16, 30, 51] 0) = Inr (y, blk')
            \<and> shape y = [2, 32, 30, 51])
     \<and> (\<exists>y ls' rng'. layers_loop scalar_rt True (dropout_p (map_STBLN draw m0))
                         (py_range (length (layers (map_STBLN draw m0))))
                         (layers (map_STBLN draw m0)) (0::nat) (Tensor [2, 2, 30, 51] 0)
                       = Inr (y, ls', rng')
            \<and> shape y = [2, 64, 30, 51])"
proof -
  obtain m0 where m0: "STBLN_init 6 51 1 2 = Inr m0"
    using STBLN_init_succeeds [of 6 51 1 2] by auto
  have j: "(\<forall>i<7. \<forall>x. shape x = [2, [2, 8, 16, 16, 32, 32, 64] ! i, 30, 51] \<longrightarrow>
            (\<exists>y blk'. ST_BLN_block_forward scalar_rt True (snd (layers (map_STBLN draw m0) ! i)) x
                 = Inr (y, blk')
               \<and> shape y = [2, [8, 16, 16, 32, 32, 64, 64] ! i, 30, 51]))
       \<and> (\<forall>x rng. shape x = [2, 2, 30, 51] \<longrightarrow>
            (\<exists>y ls' rng'. layers_loop scalar_rt True (dropout_p (map_STBLN draw m0))
                             (py_range (length (layers (map_STBLN draw m0))))
                             (layers (map_STBLN draw m0)) rng x = Inr (y, ls', rng')
               \<and> shape y = [2, 64, 30, 51]))"
    by (rule joint_dimension_preserved [OF m0]) simp_all
  have 1: "\<exists>y blk'. ST_BLN_block_forward scalar_rt True (snd (layers (map_STBLN draw m0) ! 3))
                      (Tensor [2, 16, 30, 51] 0) = Inr (y, blk')
            \<and> shape y = [2, 32, 30, 51]"
    using j [THEN conjunct1, rule_format, of 3 "Tensor [2, 16, 30, 51] 0"] by simp
  have 2: "\<exists>y ls' rng'. layers_loop scalar_rt True (dropout_p (map_STBLN draw m0))
                         (py_range (length (layers (map_STBLN draw m0))))
                         (layers (map_STBLN draw m0)) (0::nat) (Tensor [2, 2, 30, 51] 0)
                       = Inr (y, ls', rng')
            \<and> shape y = [2, 64, 30, 51]"
    using j [THEN conjunct2, rule_format, of "Tensor [2, 2, 30, 51] 0" 0] by simp
  show ?thesis
    using m0 1 2 by (intro exI [of _ m0]) simp
qed

text \<open>
  Claim C2 fails on the code.  A \<^verbatim>\<open>BilinearMapping(2, 8, 51, 25)\<close> on an input of
  shape \<open>[1, 2, 30, 51]\<close> does not return: the residual convolution has kernel
  \<open>(25, 51)\<close> over (time, joints) and no padding, its result has shape
  \<open>[1, 8, 6, 1]\<close>, and \<^verbatim>\<open>hidden_ += ...\<close> cannot broadcast six frames onto the
  thirty of \<^verbatim>\<open>hidden_\<close>, of shape \<open>[1, 8, 30, 25]\<close>.
\<close>

theorem BilinearMapping_unequal_dims_raises:
  "map_sum id (shape \<circ> fst)
     (BilinearMapping_run scalar_rt False draw 2 8 51 25 (Tensor [1, 2, 30, 51] 0))
   = Inl (ShapeError Op_add)"
  by (simp add: BilinearMapping_run_def BilinearMapping_init_def Let_def py_range_3
      weights_init_def tensor_size_def init_with_def sqrt_2_over_def Conv2d_new_def
      BatchNorm_new_def BilinearMapping_forward_def subset_step_def torch_view_def
      infer_size_def numel_def torch_select_def torch_matmul_def Conv2d_forward_def
      torch_conv2d_def torch_add_def broadcast_shapes_def BatchNorm2d_forward_def
      batch_norm_forward_def size_prods_def torch_iadd_def)

section \<open>A wrong number of joints\<close>

text \<open>
  When the joint axis of the input has \<open>V\<close> entries and the mixing matrices are
  \<open>P \<times> P\<close> with \<open>V \<noteq> P\<close>, the first matrix product of the first block is
  refused, and nothing after it runs.
\<close>

lemma subset_step_mismatch:
  assumes x: "shape x = [N, C, T, V]"
    and A: "shape A = [K, P, W]"
    and i: "i < K" "i < length (g_conv bm)"
    and ne: "V \<noteq> P"
  shows "subset_step rt bm x A (N, C, T, V) i hidden = Inl (ShapeError Op_matmul)"
proof -
  have v1: "torch_view x [int N, int (C * T), int V] = Inr (Tensor [N, C * T, V] (data x))"
    by (rule torch_view3) (simp add: x)
  have s: "torch_select rt A i = Inr (Tensor [P, W] (rt_select rt A i))"
    using A i by (simp add: torch_select_def)
  have m: "torch_matmul rt (Tensor [N, C * T, V] (data x)) (Tensor [P, W] (rt_select rt A i))
             = Inl (ShapeError Op_matmul)"
    using ne by (simp add: torch_matmul_def)
  show ?thesis
    using i(2) by (simp add: subset_step_def v1 s m del: of_nat_mult)
qed

lemma BilinearMapping_forward_mismatch:
  assumes arch: "BilinearMapping_arch bm = bm_arch co ci P"
    and x: "shape x = [N, C, T, V]"
    and ne: "V \<noteq> P"
  shows "BilinearMapping_forward rt training bm x = Inl (ShapeError Op_matmul)"
proof -
  have ns: "num_subset bm = 3" and A: "shape (rand_graph bm) = [3, P, P]"
    and g: "map Conv2d_arch (g_conv bm) =
       [conv_arch co ci 1 1 1 0, conv_arch co ci 1 1 1 0, conv_arch co ci 1 1 1 0]"
    using arch by (simp_all add: BilinearMapping_arch_def)
  have len: "length (g_conv bm) = 3"
    using arg_cong [OF g, of length] by simp
  have "subset_step rt bm x (rand_graph bm) (N, C, T, V) 0 None = Inl (ShapeError Op_matmul)"
    by (rule subset_step_mismatch [OF x A _ _ ne]) (simp_all add: len)
  then show ?thesis
    by (simp add: BilinearMapping_forward_def x ns py_range_3)
qed

lemma ST_BLN_block_forward_mismatch:
  assumes arch: "ST_BLN_block_arch blk = block_arch co ci P with_residual"
    and x: "shape x = [N, C, T, V]"
    and ne: "V \<noteq> P"
  shows "ST_BLN_block_forward rt training blk x = Inl (ShapeError Op_matmul)"
proof -
  have "BilinearMapping_arch (gcn blk) = bm_arch co ci P"
    using arch by (simp add: ST_BLN_block_arch_def)
  then show ?thesis
    using BilinearMapping_forward_mismatch [OF _ x ne, of "gcn blk" co ci rt training]
    by (simp add: ST_BLN_block_forward_def)
qed

lemma layers_loop_mismatch:
  assumes ls: "map (\<lambda>kv. (fst kv, ST_BLN_block_arch (snd kv))) ls = layers_arch P"
    and x: "shape x = [B, C, T, V]"
    and ne: "V \<noteq> P"
  shows "layers_loop rt training p (py_range (length ls)) ls rng x = Inl (ShapeError Op_matmul)"
proof -
  obtain b1 b2 b3 b4 b5 b6 b7 where
    l: "ls = [(''layer1'', b1), (''layer2'', b2), (''layer3'', b3), (''layer4'', b4),
           (''layer5'', b5), (''layer6'', b6), (''layer7'', b7)]"
    and a1: "ST_BLN_block_arch b1 = block_arch 8 2 P False"
    using layers_of_arch [OF ls] by blast
  have len: "length ls = 7"
    by (simp add: l)
  have r: "py_range (length ls) = [0, Suc 0, 2, 3, 4, 5, 6]"
    by (simp only: len py_range_7)
  have g: "dict_get ls (''layer'' @ str (0 + 1)) = Inr b1"
    by (simp only: layer_keys) (simp add: l dict_get_def)
  have "shape (fst (Dropout_forward rt training p rng x)) = [B, C, T, V]"
    using x by simp
  then have "ST_BLN_block_forward rt training b1 (fst (Dropout_forward rt training p rng x))
          = Inl (ShapeError Op_matmul)"
    by (rule ST_BLN_block_forward_mismatch [OF a1 _ ne])
  then show ?thesis
    unfolding r using g by simp
qed

lemma batch_norm_forward_features:
  assumes "BatchNorm_arch b = bn_arch c" and "shape x ! 1 \<noteq> c"
    and "\<not> (training \<and> size_prods (shape x) = 1)"
  shows "batch_norm_forward rt training b x = Inl (ShapeError Op_batch_norm)"
  using assms by (auto simp: batch_norm_forward_def BatchNorm_arch_def)

lemma BatchNorm1d_forward_batch_size:
  assumes "training" and "shape x = [n, c, l]" and "n * l = 1"
  shows "BatchNorm1d_forward rt training b x = Inl BatchSizeError"
proof -
  have "size_prods (shape x) = 1"
    using assms(2,3) by (simp add: size_prods_def)
  then show ?thesis
    using assms(1,2) by (simp add: BatchNorm1d_forward_def batch_norm_forward_def)
qed

lemma STBLN_forward_mismatch:
  assumes arch: "STBLN_arch m = stbln_arch num_class num_point num_person in_channels"
    and x: "shape x = [N, C, T, V, M]"
    and ne: "V \<noteq> num_point"
  shows "STBLN_forward rt training m rng x =
           Inl (if training \<and> N * T = 1 then BatchSizeError
                else if M * V * C \<noteq> num_person * in_channels * num_point
                then ShapeError Op_batch_norm
                else ShapeError Op_matmul)"
proof -
  have da: "BatchNorm_arch (data_bn m) = bn_arch (num_person * in_channels * num_point)"
    and la: "map (\<lambda>kv. (fst kv, ST_BLN_block_arch (snd kv))) (layers m) = layers_arch num_point"
    using arch by (simp_all add: STBLN_arch_def)
  obtain d1 where p1: "torch_permute rt x [0, 4, 3, Suc 0, 2] = Inr (Tensor [N, M, V, C, T] d1)"
    by (simp add: torch_permute_def x)
  have v1: "torch_view (Tensor [N, M, V, C, T] d1) [int N, int (M * V * C), int T]
              = Inr (Tensor [N, M * V * C, T] d1)"
    using torch_view3 [of N "M * V * C" T "Tensor [N, M, V, C, T] d1"] by (simp add: mult.assoc)
  have sp: "size_prods [N, M * V * C, T] = N * T"
    by (simp add: size_prods_def)
  show ?thesis
  proof (cases "training \<and> N * T = 1")
    case True
    then have "BatchNorm1d_forward rt training (data_bn m) (Tensor [N, M * V * C, T] d1)
                 = Inl BatchSizeError"
      using BatchNorm1d_forward_batch_size [of training "Tensor [N, M * V * C, T] d1" N
          "M * V * C" T rt "data_bn m"]
      by simp
    then have "STBLN_forward rt training m rng x = Inl BatchSizeError"
      by (simp add: STBLN_forward_def x p1 v1 del: of_nat_mult)
    with True show ?thesis
      by simp
  next
    case False
    show ?thesis
    proof (cases "M * V * C = num_person * in_channels * num_point")
      case ne': False
      have "BatchNorm1d_forward rt training (data_bn m) (Tensor [N, M * V * C, T] d1)
                 = Inl (ShapeError Op_batch_norm)"
        using batch_norm_forward_features [OF da, of "Tensor [N, M * V * C, T] d1" training rt]
          ne' False
        by (simp add: BatchNorm1d_forward_def sp)
      then have "STBLN_forward rt training m rng x = Inl (ShapeError Op_batch_norm)"
        by (simp add: STBLN_forward_def x p1 v1 del: of_nat_mult)
      with False ne' show ?thesis
        by simp
    next
      case eq: True
      have tr: "training \<longrightarrow> N * T \<noteq> 1" using False by simp
      obtain d2 b' where bn:
        "BatchNorm1d_forward rt training (data_bn m) (Tensor [N, M * V * C, T] d1)
           = Inr (Tensor [N, M * V * C, T] d2, b')"
        using BatchNorm1d_forward_shape [where rt = rt, OF da [folded eq] _ tr,
            of "Tensor [N, M * V * C, T] d1"]
        by auto
      have v2: "torch_view (Tensor [N, M * V * C, T] d2) [int N, int M, int V, int C, int T]
              = Inr (Tensor [N, M, V, C, T] d2)"
        using torch_view5 [of N M V C T "Tensor [N, M * V * C, T] d2"] by (simp add: mult.assoc)
      obtain d3 where p2: "torch_permute rt (Tensor [N, M, V, C, T] d2) [0, Suc 0, 3, 4, 2]
                         = Inr (Tensor [N, M, C, T, V] d3)"
        by (simp add: torch_permute_def)
      have v3: "torch_view (Tensor [N, M, C, T, V] d3) [int (N * M), int C, int T, int V]
              = Inr (Tensor [N * M, C, T, V] d3)"
        using torch_view4 [of "N * M" C T V "Tensor [N, M, C, T, V] d3"] by (simp add: mult.assoc)
      have ll: "layers_loop rt training (dropout_p m) (py_range (length (layers m))) (layers m) rng
           (Tensor [N * M, C, T, V] d3) = Inl (ShapeError Op_matmul)"
        by (rule layers_loop_mismatch [OF la _ ne]) simp
      have "STBLN_forward rt training m rng x = Inl (ShapeError Op_matmul)"
        by (simp add: STBLN_forward_def x p1 v1 bn v2 p2 v3 ll del: of_nat_mult)
      with False eq show ?thesis
        by simp
    qed
  qed
qed


text \<open>
  Claim C7, as amended.  Let \<open>m\<close> have the architecture of a constructed
  \<^verbatim>\<open>STBLN\<close> and let the input \<open>[N, C, T, V, M]\<close> have \<open>V \<noteq> num_point\<close>.  Then
  \<^verbatim>\<open>forward\<close> does not return; nothing is caught.  The error is raised by the input
  normalization \<^verbatim>\<open>data_bn\<close> when \<open>M * V * C\<close> differs from its
  \<open>num_person * in_channels * num_point\<close> features (or, in training mode, when the
  batch holds a single value per channel), and only otherwise by the matrix product
  of the first block.  The reshape before \<^verbatim>\<open>data_bn\<close> always succeeds.
\<close>

theorem STBLN_forward_wrong_num_point:
  assumes "STBLN_init num_class num_point num_person in_channels = Inr m0"
    and "STBLN_arch m = STBLN_arch m0"
    and "shape x = [N, C, T, V, M]"
    and "V \<noteq> num_point"
  shows "STBLN_forward rt training m rng x =
           Inl (if training \<and> N * T = 1 then BatchSizeError
                else if M * V * C \<noteq> num_person * in_channels * num_point
                then ShapeError Op_batch_norm
                else ShapeError Op_matmul)"
proof -
  have "STBLN_arch m = stbln_arch num_class num_point num_person in_channels"
    using STBLN_init_arch [OF assms(1)] assms(2) by simp
  then show ?thesis
    using assms(3,4) by (rule STBLN_forward_mismatch)
qed

text \<open>
  \<open>num_point = 102\<close> on an input with \<open>51\<close> joints and two persons: the feature count
  agrees, the matrix product is refused.
\<close>

theorem STBLN_forward_wrong_num_point_witness:
  "\<exists>m0. STBLN_init 6 102 1 2 = Inr m0
     \<and> STBLN_arch (map_STBLN draw m0) = STBLN_arch m0
     \<and> shape (Tensor [2, 2, 30, 51, 2] (0::int)) = [2, 2, 30, 51, 2]
     \<and> (51::nat) \<noteq> 102
     \<and> STBLN_forward scalar_rt True (map_STBLN draw m0) (0::nat) (Tensor [2, 2, 30, 51, 2] 0)
           = Inl (ShapeError Op_matmul)"
proof -
  obtain m0 where m0: "STBLN_init 6 102 1 2 = Inr m0"
    using STBLN_init_succeeds [of 6 102 1 2] by auto
  show ?thesis
    using STBLN_forward_wrong_num_point [OF m0, of "map_STBLN draw m0"
        "Tensor [2, 2, 30, 51, 2] 0" 2 2 30 51 2 scalar_rt True 0] m0
    by simp
qed

text \<open>
  Claim C7 as stated fails on the default network and an input with \<open>50\<close> joints:
  the error comes from the normalization layer, before any matrix product and
  after the reshape has succeeded.
\<close>

theorem STBLN_forward_wrong_num_point_counterexample:
  "STBLN_run scalar_rt False draw 6 51 1 2 0 (Tensor [2, 2, 30, 50, 1] 0)
     = Inl (ShapeError Op_batch_norm)"
proof -
  obtain m0 where m0: "STBLN_init 6 51 1 2 = Inr m0"
    using STBLN_init_succeeds [of 6 51 1 2] by auto
  have a: "STBLN_arch (map_STBLN draw m0) = stbln_arch 6 51 1 2"
    using STBLN_init_arch [OF m0] by simp
  have "STBLN_forward scalar_rt False (map_STBLN draw m0) 0 (Tensor [2, 2, 30, 50, 1] 0)
      = Inl (if False \<and> 2 * 30 = (1::nat) then BatchSizeError
             else if 1 * 50 * 2 \<noteq> (1::nat) * 2 * 51 then ShapeError Op_batch_norm
             else ShapeError Op_matmul)"
    by (rule STBLN_forward_mismatch [OF a]) simp_all
  then have "STBLN_forward scalar_rt False (map_STBLN draw m0) 0 (Tensor [2, 2, 30, 50, 1] 0)
      = Inl (ShapeError Op_batch_norm)"
    by simp
  then show ?thesis
    by (simp add: STBLN_run_def m0 del: One_nat_def)
qed

section \<open>What a forward pass changes\<close>

text \<open>
  A forward pass that returns leaves every learned parameter as it was.  In
  evaluation mode it leaves the whole module as it was; in training mode a
  normalization layer counts the batch.
\<close>

lemma batch_norm_forward_frame:
  assumes "batch_norm_forward rt training b x = Inr (y, b')"
  shows "BatchNorm_parameters b' = BatchNorm_parameters b
       \<and> (\<not> training \<longrightarrow> b' = b)
       \<and> (training \<longrightarrow> num_batches_tracked b' = num_batches_tracked b + 1)"
  using assms
  by (auto simp: batch_norm_forward_def BatchNorm_parameters_def split: if_splits)

lemma BatchNorm1d_forward_frame:
  assumes "BatchNorm1d_forward rt training b x = Inr (y, b')"
  shows "BatchNorm_parameters b' = BatchNorm_parameters b
       \<and> (\<not> training \<longrightarrow> b' = b)
       \<and> (training \<longrightarrow> num_batches_tracked b' = num_batches_tracked b + 1)"
  using assms batch_norm_forward_frame [of rt training b x y b']
  by (auto simp: BatchNorm1d_forward_def split: if_splits)

lemma BatchNorm2d_forward_frame:
  assumes "BatchNorm2d_forward rt training b x = Inr (y, b')"
  shows "BatchNorm_parameters b' = BatchNorm_parameters b \<and> (\<not> training \<longrightarrow> b' = b)"
  using assms batch_norm_forward_frame [of rt training b x y b']
  by (auto simp: BatchNorm2d_forward_def split: if_splits)

lemma BilinearMapping_forward_frame:
  assumes "BilinearMapping_forward rt training bm x = Inr (y, bm')"
  shows "BilinearMapping_parameters bm' = BilinearMapping_parameters bm
       \<and> (\<not> training \<longrightarrow> bm' = bm)"
proof -
  from assms obtain h hy hb r0 ry rb where
    h: "BatchNorm2d_forward rt training (bm_bn bm) h = Inr (hy, hb)"
    and r: "BatchNorm2d_forward rt training (snd (gcn_residual bm)) r0 = Inr (ry, rb)"
    and bm': "bm' = BilinearMapping (num_subset bm) (rand_graph bm) (g_conv bm)
              (fst (gcn_residual bm), rb) hb"
    by (auto simp: BilinearMapping_forward_def ebind_eq_Inr split: option.splits)
  show ?thesis
    using BatchNorm2d_forward_frame [OF h] BatchNorm2d_forward_frame [OF r]
    by (cases bm) (auto simp: bm' BilinearMapping_parameters_def)
qed

lemma TemporalConvolution_forward_frame:
  assumes "TemporalConvolution_forward rt training tc x = Inr (y, tc')"
  shows "TemporalConvolution_parameters tc' = TemporalConvolution_parameters tc
       \<and> (\<not> training \<longrightarrow> tc' = tc)"
proof -
  from assms obtain c b' where
    yb: "BatchNorm2d_forward rt training (tc_bn tc) c = Inr (y, b')"
    and tc': "tc' = TemporalConvolution (t_conv tc) b'"
    by (auto simp: TemporalConvolution_forward_def ebind_eq_Inr)
  show ?thesis
    using BatchNorm2d_forward_frame [OF yb]
    by (cases tc) (auto simp: tc' TemporalConvolution_parameters_def)
qed

lemma residual_forward_frame:
  assumes "residual_forward rt training r x = Inr (v, r')"
  shows "residual_parameters r' = residual_parameters r \<and> (\<not> training \<longrightarrow> r' = r)"
proof (cases r)
  case Lambda_zero
  with assms show ?thesis
    by (simp add: residual_forward_def)
next
  case (Residual_conv tc)
  with assms obtain y tc' where
    "TemporalConvolution_forward rt training tc x = Inr (y, tc')"
    and "r' = Residual_conv tc'"
    by (auto simp: residual_forward_def ebind_eq_Inr)
  with Residual_conv TemporalConvolution_forward_frame [of rt training tc x y tc']
  show ?thesis
    by (auto simp: residual_parameters_def)
qed

lemma ST_BLN_block_forward_frame:
  assumes "ST_BLN_block_forward rt training blk x = Inr (y, blk')"
  shows "ST_BLN_block_parameters blk' = ST_BLN_block_parameters blk
       \<and> (\<not> training \<longrightarrow> blk' = blk)"
proof -
  from assms obtain gy g' ty t' rv r' where
    g: "BilinearMapping_forward rt training (gcn blk) x = Inr (gy, g')"
    and t: "TemporalConvolution_forward rt training (tcn blk) gy = Inr (ty, t')"
    and r: "residual_forward rt training (residual blk) x = Inr (rv, r')"
    and blk': "blk' = ST_BLN_block g' t' r'"
    by (auto simp: ST_BLN_block_forward_def ebind_eq_Inr)
  show ?thesis
    using BilinearMapping_forward_frame [OF g] TemporalConvolution_forward_frame [OF t]
      residual_forward_frame [OF r]
    by (cases blk) (auto simp: blk' ST_BLN_block_parameters_def)
qed

lemma dict_get_Inr: "dict_get d key = Inr v \<longleftrightarrow> map_of d key = Some v"
  by (simp add: dict_get_def split: option.splits)

lemma dict_set_same: "map_of d key = Some v \<Longrightarrow> dict_set d key v = d"
  by (induction d) (auto split: if_splits)

lemma dict_set_parameters:
  "map_of d key = Some v \<Longrightarrow> f v' = f v \<Longrightarrow>
   map (\<lambda>kv. f (snd kv)) (dict_set d key v') = map (\<lambda>kv. f (snd kv)) d"
  by (induction d) (auto split: if_splits)

lemma layers_loop_frame:
  assumes "layers_loop rt training p idx ls rng x = Inr (y, ls', rng')"
  shows "map (\<lambda>kv. ST_BLN_block_parameters (snd kv)) ls'
           = map (\<lambda>kv. ST_BLN_block_parameters (snd kv)) ls
         \<and> (\<not> training \<longrightarrow> ls' = ls \<and> rng' = rng)"
  using assms
proof (induction idx arbitrary: ls rng x)
  case Nil
  then show ?case by simp
next
  case (Cons i idx)
  let ?key = "''layer'' @ str (i + 1)"
  let ?d = "Dropout_forward rt training p rng x"
  from Cons.prems obtain blk y1 blk' where
    blk: "map_of ls ?key = Some blk"
    and yb: "ST_BLN_block_forward rt training blk (fst ?d) = Inr (y1, blk')"
    and rest: "layers_loop rt training p idx (dict_set ls ?key blk') (snd ?d) y1
                 = Inr (y, ls', rng')"
    by (auto simp: ebind_eq_Inr dict_get_Inr split: sum.splits simp del: One_nat_def)
  note f = ST_BLN_block_forward_frame [OF yb]
  note ih = Cons.IH [OF rest]
  have 1: "map (\<lambda>kv. ST_BLN_block_parameters (snd kv)) ls'
           = map (\<lambda>kv. ST_BLN_block_parameters (snd kv)) ls"
    using ih dict_set_parameters [OF blk f [THEN conjunct1]] by simp
  have 2: "ls' = ls \<and> rng' = rng" if "\<not> training"
    using ih f dict_set_same [OF blk] that by (simp add: Dropout_forward_def)
  show ?case using 1 2 by blast
qed

lemma STBLN_forward_effects:
  assumes "STBLN_forward rt training m rng x = Inr (y, m', rng')"
  shows "STBLN_parameters m' = STBLN_parameters m
       \<and> (\<not> training \<longrightarrow> m' = m \<and> rng' = rng)
       \<and> (training \<longrightarrow> num_batches_tracked (data_bn m')
                           = num_batches_tracked (data_bn m) + 1)"
proof -
  from assms obtain x2 y2 b' x6 y6 ls' where
    xb: "BatchNorm1d_forward rt training (data_bn m) x2 = Inr (y2, b')"
    and xlr: "layers_loop rt training (dropout_p m) (py_range (length (layers m))) (layers m)
               rng x6 = Inr (y6, ls', rng')"
    and m': "m' = STBLN b' (dropout_p m) ls' (fc m)"
    by (auto simp: STBLN_forward_def ebind_eq_Inr split: prod.splits)
  show ?thesis
    using BatchNorm1d_forward_frame [OF xb] layers_loop_frame [OF xlr]
    by (cases m) (auto simp: m' STBLN_parameters_def)
qed

lemma layers_loop_eval_rng:
  assumes "layers_loop rt False p idx ls rng x = Inr (y, ls', rng')"
  shows "layers_loop rt False p idx ls rng2 x = Inr (y, ls', rng2)"
  using assms
proof (induction idx arbitrary: ls x)
  case Nil
  then show ?case by simp
next
  case (Cons i idx)
  let ?key = "''layer'' @ str (i + 1)"
  from Cons.prems obtain blk y1 blk' where
    blk: "dict_get ls ?key = Inr blk"
    and yb: "ST_BLN_block_forward rt False blk x = Inr (y1, blk')"
    and rest: "layers_loop rt False p idx (dict_set ls ?key blk') rng y1 = Inr (y, ls', rng')"
    by (auto simp: ebind_eq_Inr Dropout_forward_def split: sum.splits simp del: One_nat_def)
  show ?case
    using Cons.IH [OF rest] blk yb by (simp add: Dropout_forward_def del: One_nat_def)
qed

lemma STBLN_init_counter:
  assumes "STBLN_init num_class num_point num_person in_channels = Inr m0"
  shows "num_batches_tracked (data_bn m0) = 0"
  using assms
  by (auto simp: STBLN_init_def ebind_eq_Inr weights_init_def BatchNorm_new_def)

text \<open>
  Claim C8, as amended.  A forward pass of \<^verbatim>\<open>STBLN\<close> that returns leaves all
  learned parameters as they were, in either mode; in evaluation mode the model
  afterwards is the model before, buffers of the normalization layers included.
\<close>

theorem STBLN_forward_frame:
  assumes "STBLN_forward rt training m rng x = Inr (y, m', rng')"
  shows "STBLN_parameters m' = STBLN_parameters m \<and> (\<not> training \<longrightarrow> m' = m)"
  using STBLN_forward_effects [OF assms] by simp

text \<open>
  The default network in evaluation mode.
\<close>

theorem STBLN_forward_frame_witness:
  "\<exists>m0 y m' rng'. STBLN_init 6 51 1 2 = Inr m0
     \<and> STBLN_forward scalar_rt False (map_STBLN draw m0) (0::nat) (Tensor [2, 2, 30, 51, 1] 0)
          = Inr (y, m', rng')
     \<and> STBLN_parameters m' = STBLN_parameters (map_STBLN draw m0)
     \<and> (\<not> False \<longrightarrow> m' = map_STBLN draw m0)"
proof -
  obtain m0 where m0: "STBLN_init 6 51 1 2 = Inr m0"
    using STBLN_init_succeeds [of 6 51 1 2] by auto
  have a: "STBLN_arch (map_STBLN draw m0) = stbln_arch 6 51 1 2"
    using STBLN_init_arch [OF m0] by simp
  obtain v m' rng' where
    f: "STBLN_forward scalar_rt False (map_STBLN draw m0) (0::nat) (Tensor [2, 2, 30, 51, 1] 0)
          = Inr (Tensor [2, 6] v, m', rng')"
    using STBLN_forward_shape [OF a, of "Tensor [2, 2, 30, 51, 1] 0" 2 30 False scalar_rt 0]
    by auto
  show ?thesis
    using STBLN_forward_frame [OF f] m0 f by blast
qed

text \<open>
  Claim C8 as stated fails in training mode, the mode a module is constructed in:
  after one forward pass of the default network \<^verbatim>\<open>data_bn.num_batches_tracked\<close> is
  \<open>1\<close>; before, it is \<open>0\<close>.
\<close>

theorem STBLN_forward_frame_counterexample:
  "map_sum id (num_batches_tracked \<circ> data_bn \<circ> fst \<circ> snd)
     (STBLN_run scalar_rt True draw 6 51 1 2 0 (Tensor [2, 2, 30, 51, 1] 0)) = Inr 1
   \<and> map_sum id (num_batches_tracked \<circ> data_bn \<circ> map_STBLN draw) (STBLN_init 6 51 1 2)
       = Inr 0"
proof -
  obtain m0 where m0: "STBLN_init 6 51 1 2 = Inr m0"
    using STBLN_init_succeeds [of 6 51 1 2] by auto
  have a: "STBLN_arch (map_STBLN draw m0) = stbln_arch 6 51 1 2"
    using STBLN_init_arch [OF m0] by simp
  have c: "num_batches_tracked (data_bn (map_STBLN draw m0)) = 0"
    using STBLN_init_counter [OF m0] by (simp add: STBLN.map_sel BatchNorm.map_sel)
  obtain v m' rng' where
    f: "STBLN_forward scalar_rt True (map_STBLN draw m0) (0::nat) (Tensor [2, 2, 30, 51, 1] 0)
          = Inr (Tensor [2, 6] v, m', rng')"
    using STBLN_forward_shape [OF a, of "Tensor [2, 2, 30, 51, 1] 0" 2 30 True scalar_rt 0]
    by auto
  have "num_batches_tracked (data_bn m') = 1"
    using STBLN_forward_effects [OF f] c by simp
  then show ?thesis
    using c by (simp add: STBLN_run_def m0 f del: One_nat_def)
qed

text \<open>
  Claim C9.  In evaluation mode, when a forward pass returns \<open>y\<close> and leaves the
  model \<open>m'\<close>, a second pass on the same input, from \<open>m'\<close> and from any state
  \<open>rng2\<close> of the random generator, returns the same \<open>y\<close> and changes nothing.
  The primitives of the runtime are functions of their arguments here; that is the
  assumption under which the network is deterministic.
\<close>

theorem STBLN_forward_eval_deterministic:
  assumes "STBLN_forward rt False m rng x = Inr (y, m', rng')"
  shows "STBLN_forward rt False m' rng2 x = Inr (y, m', rng2)"
proof -
  have m': "m' = m"
    using STBLN_forward_effects [OF assms] by simp
  from assms obtain N C T V M x1 x2 y2 b' x4 x5 x6 y6 ls' c_new x8 x9 x10 where
    u: "unpack5 (shape x) = Inr (N, C, T, V, M)"
    and s: "torch_permute rt x [0, 4, 3, 1, 2] = Inr x1"
      "torch_view x1 [int N, int (M * V * C), int T] = Inr x2"
      "BatchNorm1d_forward rt False (data_bn m) x2 = Inr (y2, b')"
      "torch_view y2 [int N, int M, int V, int C, int T] = Inr x4"
      "torch_permute rt x4 [0, 1, 3, 4, 2] = Inr x5"
      "torch_view x5 [int (N * M), int C, int T, int V] = Inr x6"
    and l: "layers_loop rt False (dropout_p m) (py_range (length (layers m))) (layers m) rng x6
          = Inr (y6, ls', rng')"
    and t: "tensor_size y6 1 = Inr c_new"
      "torch_view y6 [int N, int M, int c_new, - 1] = Inr x8"
      "torch_mean rt x8 3 = Inr x9"
      "torch_mean rt x9 1 = Inr x10"
      "Linear_forward rt (fc m) x10 = Inr y"
    and e: "m' = STBLN b' (dropout_p m) ls' (fc m)"
    by (auto simp: STBLN_forward_def ebind_eq_Inr split: prod.splits
        simp del: One_nat_def of_nat_mult)
  show ?thesis
    unfolding m'
    using u s t layers_loop_eval_rng [OF l, of rng2] e [unfolded m']
    by (simp add: STBLN_forward_def del: One_nat_def of_nat_mult)
qed

text \<open>
  The default network: a pass from generator state \<open>0\<close>, then one from state \<open>7\<close>.
\<close>

theorem STBLN_forward_eval_deterministic_witness:
  "\<exists>m0 y m' rng'. STBLN_init 6 51 1 2 = Inr m0
     \<and> STBLN_forward scalar_rt False (map_STBLN draw m0) (0::nat) (Tensor [2, 2, 30, 51, 1] 0)
          = Inr (y, m', rng')
     \<and> STBLN_forward scalar_rt False m' (7::nat) (Tensor [2, 2, 30, 51, 1] 0)
          = Inr (y, m', 7)"
proof -
  obtain m0 where m0: "STBLN_init 6 51 1 2 = Inr m0"
    using STBLN_init_succeeds [of 6 51 1 2] by auto
  have a: "STBLN_arch (map_STBLN draw m0) = stbln_arch 6 51 1 2"
    using STBLN_init_arch [OF m0] by simp
  obtain v m' rng' where
    f: "STBLN_forward scalar_rt False (map_STBLN draw m0) (0::nat) (Tensor [2, 2, 30, 51, 1] 0)
          = Inr (Tensor [2, 6] v, m', rng')"
    using STBLN_forward_shape [OF a, of "Tensor [2, 2, 30, 51, 1] 0" 2 30 False scalar_rt 0]
    by auto
  show ?thesis
    using STBLN_forward_eval_deterministic [OF f, of 7] m0 f by blast
qed

section \<open>A block without residual\<close>

lemma ST_BLN_block_init_no_residual:
  assumes "ST_BLN_block_init in_channels out_channels graph_dim1 graph_dim2 stride False = Inr blk0"
  shows "residual blk0 = Lambda_zero"
  using assms by (auto simp: ST_BLN_block_init_def ebind_eq_Inr)

lemma residual_arch_None: "residual_arch r = None \<longleftrightarrow> r = Lambda_zero"
  by (cases r) (simp_all add: residual_arch_def)

text \<open>
  Claim C4.  Let \<open>blk\<close> have the architecture of a block constructed with
  \<^verbatim>\<open>residual=False\<close>, and let adding the number \<open>0\<close> to a tensor leave its contents
  as they are.  Then the residual path yields the number \<open>0\<close> whatever \<open>x\<close> is, and
  the forward pass of the block is the activation of the temporal convolution of
  the graph convolution of \<open>x\<close>, errors included.
\<close>

theorem ST_BLN_block_forward_no_residual:
  assumes "ST_BLN_block_init in_channels out_channels graph_dim1 graph_dim2 stride False = Inr blk0"
    and "ST_BLN_block_arch blk = ST_BLN_block_arch blk0"
    and "\<forall>t. rt_add_scalar rt t 0 = data t"
  shows "residual_forward rt training (residual blk) x = Inr (PyInt 0, residual blk)
       \<and> ST_BLN_block_forward rt training blk x =
           ebind (BilinearMapping_forward rt training (gcn blk) x) (\<lambda>g.
           ebind (TemporalConvolution_forward rt training (tcn blk) (fst g)) (\<lambda>t.
             Inr (torch_relu rt (fst t), ST_BLN_block (snd g) (snd t) (residual blk))))"
proof -
  have "residual_arch (residual blk) = None"
    using assms(2) ST_BLN_block_init_no_residual [OF assms(1)]
    by (simp add: ST_BLN_block_arch_def residual_arch_def)
  then have r: "residual blk = Lambda_zero"
    by (simp only: residual_arch_None)
  have z: "Tensor (shape t) (rt_add_scalar rt t 0) = t" for t :: "'a tensor"
    using assms(3) by simp
  have p: "py_add rt t (PyInt 0) = Inr t" for t :: "'a tensor"
    by (simp add: py_add_def z)
  have 1: "residual_forward rt training (residual blk) x = Inr (PyInt 0, residual blk)"
    by (simp add: r residual_forward_def)
  have 2: "ST_BLN_block_forward rt training blk x =
           ebind (BilinearMapping_forward rt training (gcn blk) x) (\<lambda>g.
           ebind (TemporalConvolution_forward rt training (tcn blk) (fst g)) (\<lambda>t.
             Inr (torch_relu rt (fst t), ST_BLN_block (snd g) (snd t) (residual blk))))"
    by (simp add: ST_BLN_block_forward_def 1 p)
  show ?thesis using 1 2 by (rule conjI)
qed

text \<open>
  The first block of the network, on the runtime of integers.
\<close>

lemma scalar_rt_add_zero: "rt_add_scalar scalar_rt t 0 = data t"
  by (simp add: scalar_rt_def)

theorem ST_BLN_block_forward_no_residual_witness:
  "\<exists>blk0. ST_BLN_block_init 2 8 51 51 1 False = Inr blk0
     \<and> ST_BLN_block_arch (map_ST_BLN_block draw blk0) = ST_BLN_block_arch blk0
     \<and> (\<forall>t. rt_add_scalar scalar_rt t 0 = data t)
     \<and> ST_BLN_block_forward scalar_rt True (map_ST_BLN_block draw blk0) (Tensor [2, 2, 30, 51] 0)
        = ebind (BilinearMapping_forward scalar_rt True (gcn (map_ST_BLN_block draw blk0))
                   (Tensor [2, 2, 30, 51] 0)) (\<lambda>g.
          ebind (TemporalConvolution_forward scalar_rt True (tcn (map_ST_BLN_block draw blk0))
                   (fst g)) (\<lambda>t.
            Inr (torch_relu scalar_rt (fst t),
                 ST_BLN_block (snd g) (snd t) (residual (map_ST_BLN_block draw blk0)))))"
proof -
  obtain blk0 where b: "ST_BLN_block_init 2 8 51 51 1 False = Inr blk0"
    using ST_BLN_block_init_succeeds [of 2 8 51 51 1 False] by auto
  have a: "ST_BLN_block_arch (map_ST_BLN_block draw blk0) = ST_BLN_block_arch blk0"
    by simp
  have z: "\<forall>t. rt_add_scalar scalar_rt t 0 = data t"
    by (simp add: scalar_rt_add_zero)
  show ?thesis
    using ST_BLN_block_forward_no_residual [OF b a z, of True "Tensor [2, 2, 30, 51] 0"] b a z
    by blast
qed

end
